theory Spec2Isabelle
  imports Complex_Main "HOL-Library.Char_ord" "HOL-Library.List_Lexorder"
begin

section \<open>Exceptions and deferred images\<close>

text \<open>
  The Python exceptions the three source files can meet. \<open>except Exception\<close> catches every
  one of them; \<open>except ee.EEException\<close> catches only \<open>EEException\<close>.
\<close>

datatype exn =
    EEException
  | FileNotFoundError
  | JSONDecodeError
  | KeyError
  | IndexError
  | OSError
  | ConnectionError

type_synonym 'a result = "exn + 'a"

text \<open>
  A raster is a list of named bands in band order; a band gives each pixel of the working
  grid a value, or \<open>None\<close> where the pixel is masked. An \<open>ee.Image\<close> object is an
  expression that the backend evaluates only when it is sampled: it denotes either a
  raster or the \<open>EEException\<close> its evaluation ends in, so the model of an image is a
  \<open>raster result\<close> and every image operator passes an error of an operand on.
\<close>

type_synonym pixel = "int \<times> int"
type_synonym band = "pixel \<Rightarrow> real option"
type_synonym raster = "(string \<times> band) list"
type_synonym image = "raster result"

definition on1 :: "(raster \<Rightarrow> image) \<Rightarrow> image \<Rightarrow> image" where
  "on1 f a = (case a of Inl e \<Rightarrow> Inl e | Inr x \<Rightarrow> f x)"

definition on2 :: "(raster \<Rightarrow> raster \<Rightarrow> image) \<Rightarrow> image \<Rightarrow> image \<Rightarrow> image" where
  "on2 f a b =
     (case a of Inl e \<Rightarrow> Inl e
      | Inr x \<Rightarrow> (case b of Inl e \<Rightarrow> Inl e | Inr y \<Rightarrow> f x y))"

definition band_value :: "image \<Rightarrow> string \<Rightarrow> pixel \<Rightarrow> real option" where
  "band_value img n p =
     (case img of Inl e \<Rightarrow> None
      | Inr r \<Rightarrow> (case map_of r n of None \<Rightarrow> None | Some b \<Rightarrow> b p))"


section \<open>Decimal text of an integer\<close>

text \<open>Python's \<open>str\<close> of an \<open>int\<close>, as the f-strings of the source use it.\<close>

definition digit_char :: "nat \<Rightarrow> char" where
  "digit_char d = ''0123456789'' ! d"

fun str_nat :: "nat \<Rightarrow> string" where
  "str_nat n = (if n < 10 then [digit_char n] else str_nat (n div 10) @ [digit_char (n mod 10)])"

declare str_nat.simps [simp del]

definition str_int :: "int \<Rightarrow> string" where
  "str_int i = (if i < 0 then CHR ''-'' # str_nat (nat (- i)) else str_nat (nat i))"

section \<open>The image operators of the backend that the source calls\<close>

text \<open>
  \<open>image.select(names)\<close>: the named bands in the order asked for; evaluation fails when a
  name matches no band.
\<close>

fun select_bands :: "string list \<Rightarrow> raster \<Rightarrow> image" where
  "select_bands [] r = Inr []"
| "select_bands (n # ns) r =
     (case map_of r n of
        None \<Rightarrow> Inl EEException
      | Some b \<Rightarrow> (case select_bands ns r of Inl e \<Rightarrow> Inl e | Inr bs \<Rightarrow> Inr ((n, b) # bs)))"

definition select :: "string list \<Rightarrow> image \<Rightarrow> image" where
  "select ns = on1 (select_bands ns)"

text \<open>\<open>image.rename(name)\<close> with one name: the image must have exactly one band.\<close>

fun rename_band :: "string \<Rightarrow> raster \<Rightarrow> image" where
  "rename_band n [(m, b)] = Inr [(n, b)]"
| "rename_band n r = Inl EEException"

definition rename :: "string \<Rightarrow> image \<Rightarrow> image" where
  "rename n = on1 (rename_band n)"

text \<open>
  Band arithmetic is pixel-wise, and a pixel masked in either operand is masked in the
  result. When one operand has a single band it is used against every band of the other;
  otherwise the bands are paired in order and the band counts must agree. The result's
  bands carry the names of the operand with more bands, the first one's when the counts
  agree.
\<close>

definition lift2 :: "(real \<Rightarrow> real \<Rightarrow> real) \<Rightarrow> band \<Rightarrow> band \<Rightarrow> band" where
  "lift2 f a b =
     (\<lambda>p. case a p of None \<Rightarrow> None
          | Some x \<Rightarrow> (case b p of None \<Rightarrow> None | Some y \<Rightarrow> Some (f x y)))"

fun binop :: "(real \<Rightarrow> real \<Rightarrow> real) \<Rightarrow> raster \<Rightarrow> raster \<Rightarrow> image" where
  "binop f [(n, x)] [(m, y)] = Inr [(n, lift2 f x y)]"
| "binop f [(n, x)] b = Inr (map (\<lambda>(m, y). (m, lift2 f x y)) b)"
| "binop f a [(m, y)] = Inr (map (\<lambda>(n, x). (n, lift2 f x y)) a)"
| "binop f a b =
     (if length a = length b
      then Inr (map (\<lambda>((n, x), (m, y)). (n, lift2 f x y)) (zip a b))
      else Inl EEException)"

text \<open>A number passed where an image is expected is the constant image.\<close>

definition constant_image :: "real \<Rightarrow> image" where
  "constant_image c = Inr [(''constant'', \<lambda>p. Some c)]"

definition add :: "image \<Rightarrow> image \<Rightarrow> image" where
  "add = on2 (binop (\<lambda>x y. x + y))"

definition subtract :: "image \<Rightarrow> image \<Rightarrow> image" where
  "subtract = on2 (binop (\<lambda>x y. x - y))"

definition multiply :: "image \<Rightarrow> image \<Rightarrow> image" where
  "multiply = on2 (binop (\<lambda>x y. x * y))"

text \<open>
  The backend's \<open>divide\<close> returns 0 for a division by 0, which is also what \<open>/\<close> does on
  \<^typ>\<open>real\<close>; band values are modelled as exact reals.
\<close>

definition divide :: "image \<Rightarrow> image \<Rightarrow> image" where
  "divide = on2 (binop (\<lambda>x y. x / y))"

definition gt :: "image \<Rightarrow> image \<Rightarrow> image" where
  "gt = on2 (binop (\<lambda>x y. if x > y then 1 else 0))"

definition lt :: "image \<Rightarrow> image \<Rightarrow> image" where
  "lt = on2 (binop (\<lambda>x y. if x < y then 1 else 0))"

definition neq :: "image \<Rightarrow> image \<Rightarrow> image" where
  "neq = on2 (binop (\<lambda>x y. if x \<noteq> y then 1 else 0))"

text \<open>
  \<open>dst.addBands(src)\<close> with the default \<open>overwrite=False\<close>: every band of \<open>dst\<close> stays
  as it is, and each band of \<open>src\<close> is appended; a band whose name is taken is appended
  under the name with the first free numerical suffix (\<open>foo_1\<close>, \<open>foo_2\<close>, ...).
\<close>

definition fresh_name :: "string list \<Rightarrow> string \<Rightarrow> string" where
  "fresh_name used n =
     (if n \<notin> set used then n
      else (case find (\<lambda>k. n @ ''_'' @ str_nat k \<notin> set used) [1 ..< length used + 2] of
              None \<Rightarrow> n
            | Some k \<Rightarrow> n @ ''_'' @ str_nat k))"

fun add_bands :: "raster \<Rightarrow> raster \<Rightarrow> raster" where
  "add_bands dst [] = dst"
| "add_bands dst ((n, b) # src) = add_bands (dst @ [(fresh_name (map fst dst) n, b)]) src"

definition addBands :: "image \<Rightarrow> image \<Rightarrow> image" where
  "addBands = on2 (\<lambda>dst src. Inr (add_bands dst src))"

text \<open>
  \<open>ee.Image([a, b, ...])\<close> and a Python list passed where an image is expected: the
  bands of the listed images, each added to the first in turn.
\<close>

fun ee_Image :: "image list \<Rightarrow> image" where
  "ee_Image [] = Inl EEException"
| "ee_Image (a # as) = foldl addBands a as"

section \<open>Spectral indices (s2\_service.py, compute\_indices)\<close>

definition compute_indices :: "image \<Rightarrow> image" where
  "compute_indices img =
     (let nir = select [''B8''] img;
          red = select [''B4''] img;
          blue = select [''B2''] img;
          green = select [''B3''] img;
          rededge = select [''B5''] img;
          swir1 = select [''B11''] img;
          ndvi = rename ''NDVI'' (divide (subtract nir red) (add nir red));
          evi = rename ''EVI''
                  (divide (multiply (subtract nir red) (constant_image 2.5))
                          (add (subtract (add nir (multiply red (constant_image 6)))
                                         (multiply blue (constant_image 7.5)))
                               (constant_image 1)));
          gndvi = rename ''GNDVI'' (divide (subtract nir green) (add nir green));
          savi = rename ''SAVI''
                   (divide (multiply (subtract nir red) (constant_image 1.5))
                           (add (add nir red) (constant_image 0.5)));
          ndwi = rename ''NDWI'' (divide (subtract green nir) (add green nir));
          ndmi = rename ''NDMI'' (divide (subtract nir swir1) (add nir swir1));
          rendvi = rename ''RENDVI'' (divide (subtract rededge red) (add rededge red))
      in addBands img (ee_Image [ndvi, evi, gndvi, savi, ndwi, ndmi, rendvi]))"

section \<open>Masks, morphology and reduction\<close>

text \<open>\<open>image.mask()\<close>: 1 where the pixel is valid, 0 where it is masked.\<close>

definition mask_of :: "image \<Rightarrow> image" where
  "mask_of = on1 (\<lambda>r. Inr (map (\<lambda>(n, b). (n, \<lambda>p. Some (if b p = None then 0 else 1))) r))"

text \<open>\<open>image.Not()\<close>: 1 where the value is 0, and 0 elsewhere.\<close>

definition Not_img :: "image \<Rightarrow> image" where
  "Not_img =
     on1 (\<lambda>r. Inr (map (\<lambda>(n, b). (n, \<lambda>p. map_option (\<lambda>v. if v = 0 then 1 else 0) (b p))) r))"

text \<open>
  \<open>image.updateMask(mask)\<close>: a pixel stays valid only where it was valid and the mask is
  valid and not 0. A single-band mask applies to every band.
\<close>

definition mask_band :: "band \<Rightarrow> band \<Rightarrow> band" where
  "mask_band b m = (\<lambda>p. case m p of None \<Rightarrow> None | Some v \<Rightarrow> if v = 0 then None else b p)"

fun update_mask :: "raster \<Rightarrow> raster \<Rightarrow> image" where
  "update_mask r [(n, m)] = Inr (map (\<lambda>(k, b). (k, mask_band b m)) r)"
| "update_mask r ms =
     (if length r = length ms
      then Inr (map (\<lambda>((k, b), (n, m)). (k, mask_band b m)) (zip r ms))
      else Inl EEException)"

definition updateMask :: "image \<Rightarrow> image \<Rightarrow> image" where
  "updateMask = on2 update_mask"

text \<open>
  The focal operators work on the pixel grid that the \<open>reproject\<close> call after them fixes,
  and the model's grid is that working grid: \<open>reproject\<close> itself changes no value. The
  default kernel is a circle whose radius is counted in pixels. \<open>focalMin\<close> (erosion) and
  \<open>focalMax\<close> (dilation) take the least and the greatest valid value in the kernel
  around the pixel.
\<close>

definition reproject :: "image \<Rightarrow> image" where
  "reproject img = img"

definition circle :: "real \<Rightarrow> (int \<times> int) list" where
  "circle r =
     concat (map (\<lambda>dx. concat (map (\<lambda>dy. if real_of_int (dx * dx + dy * dy) \<le> r * r
                                         then [(dx, dy)] else [])
                                 [- \<lfloor>r\<rfloor> .. \<lfloor>r\<rfloor>]))
                 [- \<lfloor>r\<rfloor> .. \<lfloor>r\<rfloor>])"

definition neighbourhood :: "(int \<times> int) list \<Rightarrow> band \<Rightarrow> pixel \<Rightarrow> real list" where
  "neighbourhood k b p = List.map_filter (\<lambda>(dx, dy). b (fst p + dx, snd p + dy)) k"

definition focal :: "(real \<Rightarrow> real \<Rightarrow> real) \<Rightarrow> (int \<times> int) list \<Rightarrow> band \<Rightarrow> band" where
  "focal f k b = (\<lambda>p. case neighbourhood k b p of [] \<Rightarrow> None | v # vs \<Rightarrow> Some (fold f vs v))"

definition focalMin :: "real \<Rightarrow> image \<Rightarrow> image" where
  "focalMin radius = on1 (\<lambda>r. Inr (map (\<lambda>(n, b). (n, focal min (circle radius) b)) r))"

definition focalMax :: "real \<Rightarrow> image \<Rightarrow> image" where
  "focalMax radius = on1 (\<lambda>r. Inr (map (\<lambda>(n, b). (n, focal max (circle radius) b)) r))"

text \<open>
  \<open>collection.median()\<close>: per band and per pixel, the median of the values of the scenes
  in which the pixel is valid; the pixel is masked when no scene has it valid. The bands
  are those of the first scene; an empty collection gives an image without bands.
\<close>

definition median :: "real list \<Rightarrow> real option" where
  "median xs =
     (if xs = [] then None
      else (let s = sort xs; n = length s
            in if odd n then Some (s ! (n div 2))
               else Some ((s ! (n div 2 - 1) + s ! (n div 2)) / 2)))"

fun evaluate_all :: "image list \<Rightarrow> raster list result" where
  "evaluate_all [] = Inr []"
| "evaluate_all (a # as) =
     (case a of Inl e \<Rightarrow> Inl e
      | Inr r \<Rightarrow> (case evaluate_all as of Inl e \<Rightarrow> Inl e | Inr rs \<Rightarrow> Inr (r # rs)))"

definition pixel_values :: "raster list \<Rightarrow> string \<Rightarrow> pixel \<Rightarrow> real list" where
  "pixel_values rs n p =
     List.map_filter (\<lambda>r. case map_of r n of None \<Rightarrow> None | Some b \<Rightarrow> b p) rs"

definition median_collection :: "image list \<Rightarrow> image" where
  "median_collection col =
     (case evaluate_all col of
        Inl e \<Rightarrow> Inl e
      | Inr rs \<Rightarrow>
          (case rs of
             [] \<Rightarrow> Inr []
           | r # _ \<Rightarrow> Inr (map (\<lambda>n. (n, \<lambda>p. median (pixel_values rs n p))) (map fst r))))"

text \<open>The region is the set of pixels inside the polygon; \<open>clip\<close> masks the others.\<close>

type_synonym region = "pixel \<Rightarrow> bool"

definition clip :: "region \<Rightarrow> image \<Rightarrow> image" where
  "clip region = on1 (\<lambda>r. Inr (map (\<lambda>(n, b). (n, \<lambda>p. if region p then b p else None)) r))"

section \<open>The backend and the program state\<close>

text \<open>
  Scene times are ISO-8601 texts (\<open>2019-07-15T05:12:40\<close>), and so are the dates the
  builders pass to \<open>filterDate\<close>; within one year range such texts are ordered in time
  exactly as they are ordered as texts. \<open>filterDate(start, end)\<close> keeps the scenes with
  \<open>start \<le> time < end\<close>, and \<open>filterBounds\<close> those whose footprint meets the region.
\<close>

record s1_scene =
  s1_time :: string
  s1_footprint :: "pixel list"
  transmitterReceiverPolarisation :: "string list"
  instrumentMode :: string
  resolution_meters :: int
  orbitProperties_pass :: string
  s1_raster :: raster

record s2_scene =
  s2_index :: string
  s2_time :: string
  s2_footprint :: "pixel list"
  CLOUDY_PIXEL_PERCENTAGE :: real
  MEAN_SOLAR_AZIMUTH_ANGLE :: real
  s2_raster :: raster

record cloud_scene =
  cp_index :: string
  cp_time :: string
  cp_footprint :: "pixel list"
  cp_raster :: raster

text \<open>
  A scene of the joined optical collection: its bands, the cloud-probability image the
  join saved under \<open>s2cloudless\<close>, and the solar azimuth property the shadow stage reads.
\<close>

record s2_img =
  bands :: image
  s2cloudless :: image
  azimuth :: real

text \<open>JSON values of a sampled feature, and the sampled feature itself.\<close>

datatype pyval = PyNone | PyInt int | PyFloat real | PyStr string

record feature =
  properties :: "string \<rightharpoonup> pyval"
  coordinates :: "real list"

type_synonym row = "(string \<times> pyval) list"

text \<open>
  A data frame of coordinates: each row with its index label. A point of a feature
  collection carries the label as its \<open>id\<close> property.
\<close>

type_synonym frame = "(int \<times> real \<times> real) list"
type_synonym fc = "(int \<times> real \<times> real) list"

text \<open>
  What the program meets outside itself. \<open>geometry_file\<close> is the outcome of opening and
  parsing \<open>Tumkur.geojson\<close> and building the geometry from it. \<open>s1_raises\<close> and
  \<open>s2_raises\<close> give, per month, the exception the client library raises while the
  month's collection expression is built, if any. \<open>ddt\<close> is the backend's directional
  distance transform of one band (angle, maximal distance). \<open>sample_regions\<close> is the
  backend's answer to the bulk sampling request on an evaluated image, and
  \<open>to_csv_raises\<close> the exception writing an output file ends in, if any.
\<close>

record backend =
  geometry_file :: "region result"
  s1_catalog :: "s1_scene list"
  s1_raises :: "string \<Rightarrow> exn option"
  s2_sr_catalog :: "s2_scene list"
  s2_cloud_catalog :: "cloud_scene list"
  s2_raises :: "string \<Rightarrow> exn option"
  ddt :: "band \<Rightarrow> real \<Rightarrow> real \<Rightarrow> band"
  sample_regions :: "raster \<Rightarrow> fc \<Rightarrow> feature list result"
  to_csv_raises :: "string \<times> string \<Rightarrow> exn option"

datatype level = INFO | ERROR

text \<open>
  The module globals that hold the monthly images (\<open>None\<close> until set), the log (level
  and message template) and the output files by directory and name.
\<close>

record state =
  s1_globals :: "string \<rightharpoonup> image"
  s2_globals :: "string \<rightharpoonup> image"
  logs :: "(level \<times> string) list"
  files :: "string \<times> string \<rightharpoonup> row list"

definition initial_state :: state where
  "initial_state = \<lparr>s1_globals = Map.empty, s2_globals = Map.empty, logs = [], files = Map.empty\<rparr>"

definition logger :: "level \<Rightarrow> string \<Rightarrow> state \<Rightarrow> state" where
  "logger lv msg st = st\<lparr>logs := logs st @ [(lv, msg)]\<rparr>"

section \<open>Radar composites (s1\_service.py)\<close>

definition s1_start_date :: "int \<Rightarrow> string \<Rightarrow> string" where
  "s1_start_date year month = str_int year @ ''-'' @ month @ ''-01''"

definition s1_end_date :: "int \<Rightarrow> string \<Rightarrow> string" where
  "s1_end_date year month =
     (if month \<in> set [''09'', ''11''] then str_int year @ ''-'' @ month @ ''-30''
      else str_int year @ ''-'' @ month @ ''-31'')"

definition s1_collection :: "backend \<Rightarrow> region \<Rightarrow> string \<Rightarrow> string \<Rightarrow> image list" where
  "s1_collection bk region start_date end_date =
     map (\<lambda>s. select [''VV'', ''VH''] (Inr (s1_raster s)))
       (filter (\<lambda>s. orbitProperties_pass s = ''DESCENDING'')
       (filter (\<lambda>s. resolution_meters s = 10)
       (filter (\<lambda>s. instrumentMode s = ''IW'')
       (filter (\<lambda>s. ''VV'' \<in> set (transmitterReceiverPolarisation s))
       (filter (\<lambda>s. start_date \<le> s1_time s \<and> s1_time s < end_date)
       (filter (\<lambda>s. list_ex region (s1_footprint s))
          (s1_catalog bk)))))))"

definition s1_month_image :: "image list \<Rightarrow> region \<Rightarrow> image" where
  "s1_month_image col region =
     (let median_image = clip region (median_collection col);
          vh_vv = rename ''VH_VV''
                    (divide (select [''VH''] median_image) (select [''VV''] median_image))
      in addBands median_image vh_vv)"

text \<open>One turn of the month loop: the body of the \<open>try\<close> and its \<open>except Exception\<close>.\<close>

definition s1_month :: "backend \<Rightarrow> region \<Rightarrow> int \<Rightarrow> string \<times> string \<Rightarrow> state \<Rightarrow> state" where
  "s1_month bk region year mv st =
     (let month = fst mv;
          start_date = s1_start_date year month;
          end_date = s1_end_date year month
      in case s1_raises bk month of
           Some e \<Rightarrow> logger ERROR ''Error creating Sentinel-1 data for month %s: %s'' st
         | None \<Rightarrow>
             logger INFO ''Created Sentinel-1 median for month %s''
               (st\<lparr>s1_globals := (s1_globals st)
                      (snd mv \<mapsto> s1_month_image (s1_collection bk region start_date end_date) region)\<rparr>))"

definition s1_month_names :: "(string \<times> string) list" where
  "s1_month_names =
     zip [''07'', ''08'', ''09'', ''10'', ''11'', ''12'']
         [''july_s1'', ''august_s1'', ''september_s1'', ''october_s1'', ''november_s1'',
          ''december_s1'']"

text \<open>
  The outcome of a call is the exception that leaves it, or \<open>None\<close> when it returns, with
  the state it leaves behind.
\<close>

definition create_monthwise_s1_collection ::
    "backend \<Rightarrow> int \<Rightarrow> state \<Rightarrow> exn option \<times> state" where
  "create_monthwise_s1_collection bk year st =
     (case geometry_file bk of
        Inl e \<Rightarrow> (None, logger ERROR ''Failed to load GeoJSON: %s'' st)
      | Inr region \<Rightarrow>
          (None, fold (s1_month bk region year) s1_month_names
                   (logger INFO ''Loaded Tumkur region geometry'' st)))"

section \<open>Optical composites (s2\_service.py)\<close>

definition CLOUD_FILTER :: real where "CLOUD_FILTER = 70"
definition CLD_PRB_THRESH :: real where "CLD_PRB_THRESH = 70"
definition NIR_DRK_THRESH :: real where "NIR_DRK_THRESH = 0.15"
definition CLD_PRJ_DIST :: real where "CLD_PRJ_DIST = 1"
definition BUFFER :: real where "BUFFER = 40"

definition add_cloud_bands :: "s2_img \<Rightarrow> s2_img" where
  "add_cloud_bands img =
     (let cld_prb = select [''probability''] (s2cloudless img);
          is_cloud = rename ''clouds'' (gt cld_prb (constant_image CLD_PRB_THRESH))
      in img\<lparr>bands := addBands (bands img) (ee_Image [cld_prb, is_cloud])\<rparr>)"

text \<open>
  \<open>directionalDistanceTransform\<close> of a one-band image gives the band \<open>distance\<close>, masked
  where no non-zero pixel lies within the maximal distance in the given direction.
\<close>

fun distance_band :: "(band \<Rightarrow> real \<Rightarrow> real \<Rightarrow> band) \<Rightarrow> real \<Rightarrow> real \<Rightarrow> raster \<Rightarrow> image" where
  "distance_band t angle maxd [(n, b)] = Inr [(''distance'', t b angle maxd)]"
| "distance_band t angle maxd r = Inl EEException"

definition directionalDistanceTransform ::
    "(band \<Rightarrow> real \<Rightarrow> real \<Rightarrow> band) \<Rightarrow> real \<Rightarrow> real \<Rightarrow> image \<Rightarrow> image" where
  "directionalDistanceTransform t angle maxd = on1 (distance_band t angle maxd)"

definition add_shadow_bands :: "backend \<Rightarrow> s2_img \<Rightarrow> s2_img" where
  "add_shadow_bands bk img =
     (let not_water = neq (select [''SCL''] (bands img)) (constant_image 6);
          SR_BAND_SCALE = 10000;
          dark_pixels = rename ''dark_pixels''
            (multiply (lt (select [''B8''] (bands img))
                          (constant_image (NIR_DRK_THRESH * SR_BAND_SCALE)))
                      not_water);
          shadow_azimuth = 90 - azimuth img;
          cld_proj = rename ''cloud_transform''
            (mask_of (select [''distance'']
               (reproject (directionalDistanceTransform (ddt bk) shadow_azimuth
                             (CLD_PRJ_DIST * 10) (select [''clouds''] (bands img))))));
          shadows = rename ''shadows'' (multiply cld_proj dark_pixels)
      in img\<lparr>bands := addBands (bands img) (ee_Image [dark_pixels, cld_proj, shadows])\<rparr>)"

definition add_cld_shdw_mask :: "backend \<Rightarrow> s2_img \<Rightarrow> s2_img" where
  "add_cld_shdw_mask bk img =
     (let img_cloud = add_cloud_bands img;
          img_cloud_shadow = add_shadow_bands bk img_cloud;
          is_cld_shdw = gt (add (select [''clouds''] (bands img_cloud_shadow))
                                (select [''shadows''] (bands img_cloud_shadow)))
                           (constant_image 0);
          is_cld_shdw = rename ''cloudmask''
            (reproject (focalMax (BUFFER * 2 / 20) (focalMin 2 is_cld_shdw)))
      in img_cloud_shadow\<lparr>bands := addBands (bands img_cloud_shadow) is_cld_shdw\<rparr>)"

definition apply_cld_shdw_mask :: "s2_img \<Rightarrow> image" where
  "apply_cld_shdw_mask img =
     (let not_cld_shdw = Not_img (select [''cloudmask''] (bands img))
      in updateMask
           (select [''B2'', ''B3'', ''B4'', ''B5'', ''B8'', ''B11'', ''B12''] (bands img))
           not_cld_shdw)"

text \<open>
  The two filtered collections and their join on \<open>system:index\<close>: each optical scene
  that has a cloud-probability scene of the same index keeps the first such scene under
  \<open>s2cloudless\<close>; an optical scene without one is not in the joined collection.
\<close>

definition get_s2_sr_cld_col ::
    "backend \<Rightarrow> region \<Rightarrow> string \<Rightarrow> string \<Rightarrow> real \<Rightarrow> s2_img list" where
  "get_s2_sr_cld_col bk aoi start_date end_date cloud_filter =
     (let s2_sr_col =
            filter (\<lambda>s. CLOUDY_PIXEL_PERCENTAGE s \<le> cloud_filter)
            (filter (\<lambda>s. start_date \<le> s2_time s \<and> s2_time s < end_date)
            (filter (\<lambda>s. list_ex aoi (s2_footprint s)) (s2_sr_catalog bk)));
          s2_cloudless_col =
            filter (\<lambda>c. start_date \<le> cp_time c \<and> cp_time c < end_date)
            (filter (\<lambda>c. list_ex aoi (cp_footprint c)) (s2_cloud_catalog bk))
      in List.map_filter
           (\<lambda>s. case find (\<lambda>c. cp_index c = s2_index s) s2_cloudless_col of
                  None \<Rightarrow> None
                | Some c \<Rightarrow>
                    Some \<lparr>bands = select [''B2'', ''B3'', ''B4'', ''B5'', ''B8'', ''B11'', ''B12'',
                                          ''SCL''] (Inr (s2_raster s)),
                          s2cloudless = Inr (cp_raster c),
                          azimuth = MEAN_SOLAR_AZIMUTH_ANGLE s\<rparr>)
           s2_sr_col)"

definition s2_start_date :: "int \<Rightarrow> string \<Rightarrow> string" where
  "s2_start_date year month = str_int year @ ''-'' @ month @ ''-01''"

definition s2_end_date :: "int \<Rightarrow> string \<Rightarrow> string" where
  "s2_end_date year month =
     (if month \<in> set [''09'', ''11''] then str_int year @ ''-'' @ month @ ''-30''
      else str_int year @ ''-'' @ month @ ''-31'')"

definition s2_month_image :: "backend \<Rightarrow> s2_img list \<Rightarrow> region \<Rightarrow> image" where
  "s2_month_image bk s2_collection region =
     (let s2_processed = map apply_cld_shdw_mask (map (add_cld_shdw_mask bk) s2_collection);
          median_image = clip region (median_collection s2_processed)
      in compute_indices median_image)"

text \<open>
  The month loop has no \<open>try\<close>: an exception raised while a month's collection is built
  (logged and raised again by \<open>get_s2_sr_cld_col\<close>) leaves the loop and the function.
\<close>

fun s2_months ::
    "backend \<Rightarrow> region \<Rightarrow> int \<Rightarrow> (string \<times> string) list \<Rightarrow> state \<Rightarrow> exn option \<times> state" where
  "s2_months bk region year [] st = (None, st)"
| "s2_months bk region year (mv # rest) st =
     (let month = fst mv;
          start_date = s2_start_date year month;
          end_date = s2_end_date year month
      in case s2_raises bk month of
           Some e \<Rightarrow> (Some e, logger ERROR ''Error in get_s2_sr_cld_col: %s'' st)
         | None \<Rightarrow>
             s2_months bk region year rest
               (logger INFO ''Created Sentinel-2 median with indices for month %s''
                  (st\<lparr>s2_globals := (s2_globals st)
                         (snd mv \<mapsto> s2_month_image bk
                            (get_s2_sr_cld_col bk region start_date end_date CLOUD_FILTER)
                            region)\<rparr>)))"

definition s2_month_names :: "(string \<times> string) list" where
  "s2_month_names =
     zip [''07'', ''08'', ''09'', ''10'', ''11'', ''12'']
         [''july_s2'', ''august_s2'', ''september_s2'', ''october_s2'', ''november_s2'',
          ''december_s2'']"

definition create_monthwise_s2_collection ::
    "backend \<Rightarrow> int \<Rightarrow> state \<Rightarrow> exn option \<times> state" where
  "create_monthwise_s2_collection bk year st =
     (case geometry_file bk of
        Inl e \<Rightarrow> (Some e, st)
      | Inr region \<Rightarrow> s2_months bk region year s2_month_names st)"

section \<open>Sampling and export\<close>

text \<open>Python's \<open>str.lower\<close> on ASCII letters.\<close>

definition lower_char :: "char \<Rightarrow> char" where
  "lower_char c =
     (case map_of (zip ''ABCDEFGHIJKLMNOPQRSTUVWXYZ'' ''abcdefghijklmnopqrstuvwxyz'') c of
        None \<Rightarrow> c
      | Some l \<Rightarrow> l)"

definition lower :: "string \<Rightarrow> string" where
  "lower s = map lower_char s"

text \<open>\<open>d.get(key, 0)\<close>: the value under the key, and the integer 0 when the key is absent.\<close>

definition get_or_zero :: "(string \<rightharpoonup> pyval) \<Rightarrow> string \<Rightarrow> pyval" where
  "get_or_zero props k = (case props k of None \<Rightarrow> PyInt 0 | Some v \<Rightarrow> v)"

text \<open>
  One turn of the loop over the returned features: \<open>props["id"]\<close> raises \<open>KeyError\<close>
  when the key is absent, \<open>geom[0]\<close> and \<open>geom[1]\<close> raise \<open>IndexError\<close> on a shorter
  list.
\<close>

definition s1_row :: "feature \<Rightarrow> row result" where
  "s1_row f =
     (let props = properties f; geom = coordinates f
      in case props ''id'' of
           None \<Rightarrow> Inl KeyError
         | Some i \<Rightarrow>
             (case geom of
                lon # lat # rest \<Rightarrow>
                  Inr [(''id'', i), (''Longitude'', PyFloat lon), (''Latitude'', PyFloat lat),
                       (''VV'', get_or_zero props ''VV''),
                       (''VH'', get_or_zero props ''VH''),
                       (''VH_VV'', get_or_zero props ''VH_VV'')]
              | _ \<Rightarrow> Inl IndexError))"

definition s2_row :: "feature \<Rightarrow> row result" where
  "s2_row f =
     (let props = properties f; geom = coordinates f
      in case props ''id'' of
           None \<Rightarrow> Inl KeyError
         | Some i \<Rightarrow>
             (case geom of
                lon # lat # rest \<Rightarrow>
                  Inr [(''id'', i), (''Longitude'', PyFloat lon), (''Latitude'', PyFloat lat),
                       (''NDVI'', get_or_zero props ''NDVI''),
                       (''EVI'', get_or_zero props ''EVI''),
                       (''GNDVI'', get_or_zero props ''GNDVI''),
                       (''SAVI'', get_or_zero props ''SAVI''),
                       (''NDWI'', get_or_zero props ''NDWI''),
                       (''NDMI'', get_or_zero props ''NDMI''),
                       (''RENDVI'', get_or_zero props ''RENDVI'')]
              | _ \<Rightarrow> Inl IndexError))"

fun data_list :: "(feature \<Rightarrow> row result) \<Rightarrow> feature list \<Rightarrow> row list result" where
  "data_list to_row [] = Inr []"
| "data_list to_row (f # fs) =
     (case to_row f of
        Inl e \<Rightarrow> Inl e
      | Inr r \<Rightarrow> (case data_list to_row fs of Inl e \<Rightarrow> Inl e | Inr rs \<Rightarrow> Inr (r # rs)))"

text \<open>
  \<open>sampleRegions(...).getInfo()\<close>: the image is evaluated now, so an image whose
  evaluation fails makes the request fail with \<open>EEException\<close>.
\<close>

definition getInfo :: "backend \<Rightarrow> image \<Rightarrow> fc \<Rightarrow> feature list result" where
  "getInfo bk img points =
     (case img of Inl e \<Rightarrow> Inl EEException | Inr r \<Rightarrow> sample_regions bk r points)"

text \<open>
  The body of the \<open>try\<close> of an exporter: sample, build the rows, write the file. It
  gives the exception that ends it, or the state with the file written.
\<close>

definition export_body ::
    "backend \<Rightarrow> (feature \<Rightarrow> row result) \<Rightarrow> string \<Rightarrow> image \<Rightarrow> fc \<Rightarrow> string \<times> string
       \<Rightarrow> state \<Rightarrow> exn + state" where
  "export_body bk to_row saved_msg img points output_file st =
     (case getInfo bk img points of
        Inl e \<Rightarrow> Inl e
      | Inr features \<Rightarrow>
          (case data_list to_row features of
             Inl e \<Rightarrow> Inl e
           | Inr df \<Rightarrow>
               (case to_csv_raises bk output_file of
                  Some e \<Rightarrow> Inl e
                | None \<Rightarrow> Inr (logger INFO saved_msg (st\<lparr>files := (files st)(output_file \<mapsto> df)\<rparr>)))))"

text \<open>\<open>except ee.EEException\<close>: that exception is logged; any other leaves the function.\<close>

definition except_EEException :: "string \<Rightarrow> state \<Rightarrow> exn + state \<Rightarrow> exn option \<times> state" where
  "except_EEException err_msg st r =
     (case r of
        Inr st' \<Rightarrow> (None, st')
      | Inl e \<Rightarrow> if e = EEException then (None, logger ERROR err_msg st) else (Some e, st))"

definition s1_month_vars :: "state \<Rightarrow> string \<rightharpoonup> image" where
  "s1_month_vars st =
     (\<lambda>month. case map_of [(''July'', ''july_s1''), (''August'', ''august_s1''),
                            (''September'', ''september_s1''), (''October'', ''october_s1''),
                            (''November'', ''november_s1''), (''December'', ''december_s1'')] month of
                 None \<Rightarrow> None
               | Some v \<Rightarrow> s1_globals st v)"

definition export_sentinel_1_data ::
    "backend \<Rightarrow> fc \<Rightarrow> string \<Rightarrow> int \<Rightarrow> string \<Rightarrow> state \<Rightarrow> exn option \<times> state" where
  "export_sentinel_1_data bk points month batch_idx output_dir st =
     (case s1_month_vars st month of
        None \<Rightarrow> (None, logger ERROR ''Sentinel-1 image for %s not initialized'' st)
      | Some s1_img \<Rightarrow>
          except_EEException ''Error processing Sentinel-1 data for %s, batch %d: %s'' st
            (export_body bk s1_row ''Saved Sentinel-1 data for %s, batch %d to %s'' s1_img points
               (output_dir, ''s1_'' @ lower month @ ''_2019_batch'' @ str_int batch_idx @ ''.csv'')
               st))"

definition s2_month_vars :: "state \<Rightarrow> string \<rightharpoonup> image" where
  "s2_month_vars st =
     (\<lambda>month. case map_of [(''July'', ''july_s2''), (''August'', ''august_s2''),
                            (''September'', ''september_s2''), (''October'', ''october_s2''),
                            (''November'', ''november_s2''), (''December'', ''december_s2'')] month of
                 None \<Rightarrow> None
               | Some v \<Rightarrow> s2_globals st v)"

definition export_sentinel_2_data ::
    "backend \<Rightarrow> fc \<Rightarrow> string \<Rightarrow> int \<Rightarrow> string \<Rightarrow> state \<Rightarrow> exn option \<times> state" where
  "export_sentinel_2_data bk points month batch_idx output_dir st =
     (case s2_month_vars st month of
        None \<Rightarrow> (None, logger ERROR ''Sentinel-2 image for %s not initialized'' st)
      | Some s2_img \<Rightarrow>
          except_EEException ''Error processing Sentinel-2 data for %s, batch %d: %s'' st
            (export_body bk s2_row
               (''Sampled features for %s, batch %d: %d'' @ [CHR 0x0A] @
                ''Saved Sentinel-2 data for %s, batch %d to %s'') s2_img points
               (output_dir, ''s2_'' @ lower month @ ''_2019_batch'' @ str_int batch_idx @ ''.csv'')
               st))"

section \<open>Batching and the run (index.py)\<close>

definition batch_size :: int where
  "batch_size = 4000"

definition num_batches :: "int \<Rightarrow> int \<Rightarrow> int" where
  "num_batches n b = (n + b - 1) div b"

text \<open>\<open>df.iloc[start:end]\<close> for bounds that are not negative.\<close>

definition iloc :: "'a list \<Rightarrow> int \<Rightarrow> int \<Rightarrow> 'a list" where
  "iloc df start stop = take (nat (stop - start)) (drop (nat start) df)"

definition batches :: "int \<Rightarrow> 'a list \<Rightarrow> (int \<times> 'a list) list" where
  "batches b df =
     map (\<lambda>batch_idx.
            (batch_idx,
             iloc df (batch_idx * b) (min ((batch_idx + 1) * b) (int (length df)))))
         (map int [0 ..< nat (num_batches (int (length df)) b)])"

definition months :: "string list" where
  "months = [''July'', ''August'', ''September'', ''October'', ''November'', ''December'']"

text \<open>The month loop of a batch task: an exception of an exporter leaves the task.\<close>

fun export_months ::
    "backend \<Rightarrow> fc \<Rightarrow> int \<Rightarrow> string \<Rightarrow> string list \<Rightarrow> state \<Rightarrow> exn option \<times> state" where
  "export_months bk points batch_idx output_dir [] st = (None, st)"
| "export_months bk points batch_idx output_dir (month # rest) st =
     (case export_sentinel_1_data bk points month batch_idx output_dir
             (logger INFO ''Processing Sentinel-1 data for %s, batch %d'' st) of
        (Some e, st1) \<Rightarrow> (Some e, st1)
      | (None, st1) \<Rightarrow>
          (case export_sentinel_2_data bk points month batch_idx output_dir
                  (logger INFO ''Processing Sentinel-2 data for %s, batch %d'' st1) of
             (Some e, st2) \<Rightarrow> (Some e, st2)
           | (None, st2) \<Rightarrow> export_months bk points batch_idx output_dir rest st2))"

definition process_batch ::
    "backend \<Rightarrow> int \<Rightarrow> frame \<Rightarrow> string list \<Rightarrow> string \<Rightarrow> state \<Rightarrow> exn option \<times> state" where
  "process_batch bk batch_idx batch_df ms output_dir st =
     export_months bk batch_df batch_idx output_dir ms
       (logger INFO ''Created batch %d/%d with %d points'' st)"

text \<open>
  The pool runs the batch tasks; an exception that leaves a task is logged when its
  result is collected, and the other tasks run on. The tasks are taken in batch order
  here: each writes files of its own and only reads the monthly images.
\<close>

fun run_batches :: "backend \<Rightarrow> (int \<times> frame) list \<Rightarrow> string \<Rightarrow> state \<Rightarrow> state" where
  "run_batches bk [] output_dir st = st"
| "run_batches bk ((batch_idx, batch_df) # rest) output_dir st =
     (case process_batch bk batch_idx batch_df months output_dir st of
        (Some e, st') \<Rightarrow>
          run_batches bk rest output_dir (logger ERROR ''Error in batch processing: %s'' st')
      | (None, st') \<Rightarrow> run_batches bk rest output_dir st')"

text \<open>
  The script from the loaded input frame on: \<open>read_csv\<close> labels the rows 0, 1, 2, ...
  The two builders run first; an exception that leaves one of them ends the run there.
\<close>

definition read_csv :: "(real \<times> real) list \<Rightarrow> frame" where
  "read_csv rows = map (\<lambda>(i, lon, lat). (int i, lon, lat)) (zip [0 ..< length rows] rows)"

definition main :: "backend \<Rightarrow> (real \<times> real) list \<Rightarrow> string \<Rightarrow> exn option \<times> state" where
  "main bk rows output_dir =
     (let df_input = read_csv rows;
          st0 = logger INFO ''Creating Sentinel-1 and Sentinel-2 collections for 2019''
                  (logger INFO ''Loaded %d coordinates from %s'' initial_state)
      in case create_monthwise_s1_collection bk 2019 st0 of
           (Some e, st1) \<Rightarrow> (Some e, st1)
         | (None, st1) \<Rightarrow>
             (case create_monthwise_s2_collection bk 2019 st1 of
                (Some e, st2) \<Rightarrow> (Some e, st2)
              | (None, st2) \<Rightarrow>
                  (None,
                   logger INFO ''Processing complete. CSVs saved in %s''
                     (run_batches bk (batches batch_size df_input) output_dir
                        (logger INFO ''Processing %d coordinates in %d batches of %d'' st2)))))"

section \<open>Properties of the index computation\<close>

lemma add_bands_append: "\<exists>ys. add_bands dst src = dst @ ys \<and> length ys = length src"
proof (induction dst src rule: add_bands.induct)
  case (1 dst)
  then show ?case by simp
next
  case (2 dst n b src)
  then obtain ys where "add_bands (dst @ [(fresh_name (map fst dst) n, b)]) src
      = (dst @ [(fresh_name (map fst dst) n, b)]) @ ys" and "length ys = length src"
    by blast
  then show ?case by simp
qed

lemma addBands_Inr:
  "addBands a b = Inr c \<Longrightarrow> \<exists>x y. a = Inr x \<and> b = Inr y \<and> c = add_bands x y"
  by (auto simp: addBands_def on2_def split: sum.splits)

lemma rename_Inr: "rename n a = Inr c \<Longrightarrow> \<exists>b. c = [(n, b)]"
  by (cases a; simp add: rename_def on1_def) (erule rename_band.elims; auto)

lemma ee_Image7_length:
  assumes "ee_Image [rename n1 a1, rename n2 a2, rename n3 a3, rename n4 a4, rename n5 a5,
             rename n6 a6, rename n7 a7] = Inr src"
  shows "length src = 7"
proof -
  from assms have "addBands (addBands (addBands (addBands (addBands (addBands (rename n1 a1)
      (rename n2 a2)) (rename n3 a3)) (rename n4 a4)) (rename n5 a5)) (rename n6 a6)) (rename n7 a7)
      = Inr src" by simp
  then obtain x6 y7 where s7: "src = add_bands x6 y7" "rename n7 a7 = Inr y7"
    and "addBands (addBands (addBands (addBands (addBands (rename n1 a1)
      (rename n2 a2)) (rename n3 a3)) (rename n4 a4)) (rename n5 a5)) (rename n6 a6) = Inr x6"
    by (blast dest: addBands_Inr)
  then obtain x5 y6 where s6: "x6 = add_bands x5 y6" "rename n6 a6 = Inr y6"
    and "addBands (addBands (addBands (addBands (rename n1 a1)
      (rename n2 a2)) (rename n3 a3)) (rename n4 a4)) (rename n5 a5) = Inr x5"
    by (blast dest: addBands_Inr)
  then obtain x4 y5 where s5: "x5 = add_bands x4 y5" "rename n5 a5 = Inr y5"
    and "addBands (addBands (addBands (rename n1 a1)
      (rename n2 a2)) (rename n3 a3)) (rename n4 a4) = Inr x4"
    by (blast dest: addBands_Inr)
  then obtain x3 y4 where s4: "x4 = add_bands x3 y4" "rename n4 a4 = Inr y4"
    and "addBands (addBands (rename n1 a1) (rename n2 a2)) (rename n3 a3) = Inr x3"
    by (blast dest: addBands_Inr)
  then obtain x2 y3 where s3: "x3 = add_bands x2 y3" "rename n3 a3 = Inr y3"
    and "addBands (rename n1 a1) (rename n2 a2) = Inr x2"
    by (blast dest: addBands_Inr)
  then obtain y1 y2 where s2: "x2 = add_bands y1 y2" "rename n2 a2 = Inr y2"
    and s1: "rename n1 a1 = Inr y1"
    by (blast dest: addBands_Inr)
  have "length y1 = 1" "length y2 = 1" "length y3 = 1" "length y4 = 1" "length y5 = 1"
    "length y6 = 1" "length y7 = 1"
    using s1 s2(2) s3(2) s4(2) s5(2) s6(2) s7(2) by (auto dest: rename_Inr)
  then show ?thesis
    using add_bands_append [of y1 y2] add_bands_append [of x2 y3] add_bands_append [of x3 y4]
      add_bands_append [of x4 y5] add_bands_append [of x5 y6] add_bands_append [of x6 y7]
    by (auto simp: s2(1) s3(1) s4(1) s5(1) s6(1) s7(1))
qed

lemma compute_indices_appends:
  assumes "compute_indices (Inr r) = Inr out"
  shows "\<exists>ys. out = r @ ys \<and> length ys = 7"
proof -
  from assms obtain x y where "Inr r = (Inr x :: image)" and
    y: "ee_Image [rename ''NDVI'' (divide (subtract (select [''B8''] (Inr r)) (select [''B4''] (Inr r)))
              (add (select [''B8''] (Inr r)) (select [''B4''] (Inr r)))),
          rename ''EVI''
                  (divide (multiply (subtract (select [''B8''] (Inr r)) (select [''B4''] (Inr r))) (constant_image 2.5))
                          (add (subtract (add (select [''B8''] (Inr r)) (multiply (select [''B4''] (Inr r)) (constant_image 6)))
                                         (multiply (select [''B2''] (Inr r)) (constant_image 7.5)))
                               (constant_image 1))),
          rename ''GNDVI'' (divide (subtract (select [''B8''] (Inr r)) (select [''B3''] (Inr r)))
               (add (select [''B8''] (Inr r)) (select [''B3''] (Inr r)))),
          rename ''SAVI''
                   (divide (multiply (subtract (select [''B8''] (Inr r)) (select [''B4''] (Inr r))) (constant_image 1.5))
                           (add (add (select [''B8''] (Inr r)) (select [''B4''] (Inr r))) (constant_image 0.5))),
          rename ''NDWI'' (divide (subtract (select [''B3''] (Inr r)) (select [''B8''] (Inr r)))
               (add (select [''B3''] (Inr r)) (select [''B8''] (Inr r)))),
          rename ''NDMI'' (divide (subtract (select [''B8''] (Inr r)) (select [''B11''] (Inr r)))
               (add (select [''B8''] (Inr r)) (select [''B11''] (Inr r)))),
          rename ''RENDVI'' (divide (subtract (select [''B5''] (Inr r)) (select [''B4''] (Inr r)))
               (add (select [''B5''] (Inr r)) (select [''B4''] (Inr r))))] = Inr y"
    and o: "out = add_bands x y"
    unfolding compute_indices_def Let_def by (blast dest: addBands_Inr)
  then have "x = r" by simp
  moreover have "length y = 7" using y by (rule ee_Image7_length)
  ultimately show ?thesis using add_bands_append [of r y] o by auto
qed


lemma compute_indices_explicit:
  "compute_indices (Inr [(''B2'', b2), (''B3'', b3), (''B4'', b4), (''B5'', b5), (''B8'', b8),
       (''B11'', b11), (''B12'', b12)]) =
   Inr [(''B2'', b2), (''B3'', b3), (''B4'', b4), (''B5'', b5), (''B8'', b8),
       (''B11'', b11), (''B12'', b12),
       (''NDVI'', lift2 (\<lambda>x y. x / y) (lift2 (\<lambda>x y. x - y) b8 b4) (lift2 (\<lambda>x y. x + y) b8 b4)),
       (''EVI'', lift2 (\<lambda>x y. x / y)
          (lift2 (\<lambda>x y. x * y) (lift2 (\<lambda>x y. x - y) b8 b4) (\<lambda>p. Some 2.5))
          (lift2 (\<lambda>x y. x + y)
             (lift2 (\<lambda>x y. x - y)
                (lift2 (\<lambda>x y. x + y) b8 (lift2 (\<lambda>x y. x * y) b4 (\<lambda>p. Some 6)))
                (lift2 (\<lambda>x y. x * y) b2 (\<lambda>p. Some 7.5)))
             (\<lambda>p. Some 1))),
       (''GNDVI'', lift2 (\<lambda>x y. x / y) (lift2 (\<lambda>x y. x - y) b8 b3) (lift2 (\<lambda>x y. x + y) b8 b3)),
       (''SAVI'', lift2 (\<lambda>x y. x / y)
          (lift2 (\<lambda>x y. x * y) (lift2 (\<lambda>x y. x - y) b8 b4) (\<lambda>p. Some 1.5))
          (lift2 (\<lambda>x y. x + y) (lift2 (\<lambda>x y. x + y) b8 b4) (\<lambda>p. Some 0.5))),
       (''NDWI'', lift2 (\<lambda>x y. x / y) (lift2 (\<lambda>x y. x - y) b3 b8) (lift2 (\<lambda>x y. x + y) b3 b8)),
       (''NDMI'', lift2 (\<lambda>x y. x / y) (lift2 (\<lambda>x y. x - y) b8 b11) (lift2 (\<lambda>x y. x + y) b8 b11)),
       (''RENDVI'', lift2 (\<lambda>x y. x / y) (lift2 (\<lambda>x y. x - y) b5 b4) (lift2 (\<lambda>x y. x + y) b5 b4))]"
  by (simp add: compute_indices_def Let_def select_def on1_def on2_def rename_def add_def
      subtract_def divide_def multiply_def constant_image_def addBands_def fresh_name_def)

lemma s2_raster_cases:
  assumes "map fst r = [''B2'', ''B3'', ''B4'', ''B5'', ''B8'', ''B11'', ''B12'']"
  shows "\<exists>b2 b3 b4 b5 b8 b11 b12.
           r = [(''B2'', b2), (''B3'', b3), (''B4'', b4), (''B5'', b5), (''B8'', b8),
                (''B11'', b11), (''B12'', b12)]"
  using assms by (auto simp: map_eq_Cons_conv)

text \<open>
  Claim C10. \<open>compute_indices\<close> only adds bands. Whenever the result evaluates, its first
  bands are the bands of the input, unchanged and in the same order, and exactly seven
  bands follow them. For an input with the bands B2, B3, B4, B5, B8, B11, B12 of a
  monthly composite the result evaluates, and the seven new bands are named NDVI, EVI,
  GNDVI, SAVI, NDWI, NDMI, RENDVI.
\<close>

theorem compute_indices_only_adds_bands:
  "(\<forall>out. compute_indices (Inr r) = Inr out \<longrightarrow>
       take (length r) out = r \<and> length out = length r + 7) \<and>
   (map fst r = [''B2'', ''B3'', ''B4'', ''B5'', ''B8'', ''B11'', ''B12''] \<longrightarrow>
      (\<exists>out. compute_indices (Inr r) = Inr out \<and> take 7 out = r \<and>
         map fst out = [''B2'', ''B3'', ''B4'', ''B5'', ''B8'', ''B11'', ''B12'',
                        ''NDVI'', ''EVI'', ''GNDVI'', ''SAVI'', ''NDWI'', ''NDMI'', ''RENDVI'']))"
proof (intro conjI allI impI)
  fix out assume "compute_indices (Inr r) = Inr out"
  then obtain ys where "out = r @ ys" "length ys = 7"
    by (blast dest: compute_indices_appends)
  then show "take (length r) out = r" and "length out = length r + 7" by simp_all
next
  assume "map fst r = [''B2'', ''B3'', ''B4'', ''B5'', ''B8'', ''B11'', ''B12'']"
  then have "\<exists>b2 b3 b4 b5 b8 b11 b12.
      r = [(''B2'', b2), (''B3'', b3), (''B4'', b4), (''B5'', b5), (''B8'', b8),
           (''B11'', b11), (''B12'', b12)]"
    by (rule s2_raster_cases)
  then obtain b2 b3 b4 b5 b8 b11 b12 where
    "r = [(''B2'', b2), (''B3'', b3), (''B4'', b4), (''B5'', b5), (''B8'', b8),
          (''B11'', b11), (''B12'', b12)]"
    by (elim exE) (erule that)
  then show "\<exists>out. compute_indices (Inr r) = Inr out \<and> take 7 out = r \<and>
         map fst out = [''B2'', ''B3'', ''B4'', ''B5'', ''B8'', ''B11'', ''B12'',
                        ''NDVI'', ''EVI'', ''GNDVI'', ''SAVI'', ''NDWI'', ''NDMI'', ''RENDVI'']"
    by (simp add: compute_indices_explicit)
qed

theorem compute_indices_only_adds_bands_witness:
  "\<exists>out. compute_indices (Inr [(''B2'', \<lambda>p. Some 1), (''B3'', \<lambda>p. Some 2), (''B4'', \<lambda>p. Some 3),
              (''B5'', \<lambda>p. Some 4), (''B8'', \<lambda>p. Some 5), (''B11'', \<lambda>p. Some 6),
              (''B12'', \<lambda>p. Some 7)]) = Inr out \<and>
         take 7 out = [(''B2'', \<lambda>p. Some 1), (''B3'', \<lambda>p. Some 2), (''B4'', \<lambda>p. Some 3),
              (''B5'', \<lambda>p. Some 4), (''B8'', \<lambda>p. Some 5), (''B11'', \<lambda>p. Some 6),
              (''B12'', \<lambda>p. Some 7)] \<and>
         length out = 14 \<and>
         map fst out = [''B2'', ''B3'', ''B4'', ''B5'', ''B8'', ''B11'', ''B12'',
                        ''NDVI'', ''EVI'', ''GNDVI'', ''SAVI'', ''NDWI'', ''NDMI'', ''RENDVI'']"
  using compute_indices_only_adds_bands [of "[(''B2'', \<lambda>p. Some 1), (''B3'', \<lambda>p. Some 2),
              (''B4'', \<lambda>p. Some 3), (''B5'', \<lambda>p. Some 4), (''B8'', \<lambda>p. Some 5),
              (''B11'', \<lambda>p. Some 6), (''B12'', \<lambda>p. Some 7)]"]
  by auto

text \<open>
  Claim C1. On a composite with the bands B2, B3, B4, B5, B8, B11, B12, at every pixel
  where the six bands read are valid, each of the seven index bands has the value of its
  formula on the composite's band values at that pixel. At NIR = 0.5, RED = 0.1,
  BLUE = 0.05, GREEN = 0.2, REDEDGE = 0.3, SWIR1 = 0.15 the values are 2/3, 40/69, 3/7,
  6/11, -3/7, 7/13 and 1/2: NDVI is within 0.0001 of 0.6667 and the others agree with
  0.5797, 0.4286, 0.5455, -0.4286, 0.5385 and 0.5 to four decimal places.
\<close>

theorem compute_indices_formulas:
  "(map fst r = [''B2'', ''B3'', ''B4'', ''B5'', ''B8'', ''B11'', ''B12''] \<and>
    band_value (Inr r) ''B8'' p = Some nir \<and> band_value (Inr r) ''B4'' p = Some red \<and>
    band_value (Inr r) ''B2'' p = Some blue \<and> band_value (Inr r) ''B3'' p = Some green \<and>
    band_value (Inr r) ''B5'' p = Some rededge \<and> band_value (Inr r) ''B11'' p = Some swir \<longrightarrow>
    band_value (compute_indices (Inr r)) ''NDVI'' p = Some ((nir - red) / (nir + red)) \<and>
    band_value (compute_indices (Inr r)) ''EVI'' p =
      Some (2.5 * (nir - red) / (nir + 6 * red - 7.5 * blue + 1)) \<and>
    band_value (compute_indices (Inr r)) ''GNDVI'' p = Some ((nir - green) / (nir + green)) \<and>
    band_value (compute_indices (Inr r)) ''SAVI'' p =
      Some (1.5 * (nir - red) / (nir + red + 0.5)) \<and>
    band_value (compute_indices (Inr r)) ''NDWI'' p = Some ((green - nir) / (green + nir)) \<and>
    band_value (compute_indices (Inr r)) ''NDMI'' p = Some ((nir - swir) / (nir + swir)) \<and>
    band_value (compute_indices (Inr r)) ''RENDVI'' p =
      Some ((rededge - red) / (rededge + red))) \<and>
   (let out = compute_indices (Inr [(''B2'', \<lambda>q. Some 0.05), (''B3'', \<lambda>q. Some 0.2),
         (''B4'', \<lambda>q. Some 0.1), (''B5'', \<lambda>q. Some 0.3), (''B8'', \<lambda>q. Some 0.5),
         (''B11'', \<lambda>q. Some 0.15), (''B12'', b12)])
    in band_value out ''NDVI'' p = Some (2 / 3) \<and> \<bar>2 / 3 - 0.6667\<bar> \<le> (0.0001 :: real) \<and>
       band_value out ''EVI'' p = Some (40 / 69) \<and> \<bar>40 / 69 - 0.5797\<bar> \<le> (0.00005 :: real) \<and>
       band_value out ''GNDVI'' p = Some (3 / 7) \<and> \<bar>3 / 7 - 0.4286\<bar> \<le> (0.00005 :: real) \<and>
       band_value out ''SAVI'' p = Some (6 / 11) \<and> \<bar>6 / 11 - 0.5455\<bar> \<le> (0.00005 :: real) \<and>
       band_value out ''NDWI'' p = Some (- 3 / 7) \<and> \<bar>- 3 / 7 + 0.4286\<bar> \<le> (0.00005 :: real) \<and>
       band_value out ''NDMI'' p = Some (7 / 13) \<and> \<bar>7 / 13 - 0.5385\<bar> \<le> (0.00005 :: real) \<and>
       band_value out ''RENDVI'' p = Some 0.5)"
proof (intro conjI impI)
  assume a: "map fst r = [''B2'', ''B3'', ''B4'', ''B5'', ''B8'', ''B11'', ''B12''] \<and>
    band_value (Inr r) ''B8'' p = Some nir \<and> band_value (Inr r) ''B4'' p = Some red \<and>
    band_value (Inr r) ''B2'' p = Some blue \<and> band_value (Inr r) ''B3'' p = Some green \<and>
    band_value (Inr r) ''B5'' p = Some rededge \<and> band_value (Inr r) ''B11'' p = Some swir"
  then have "\<exists>b2 b3 b4 b5 b8 b11 b12.
      r = [(''B2'', b2), (''B3'', b3), (''B4'', b4), (''B5'', b5), (''B8'', b8),
           (''B11'', b11), (''B12'', b12)]"
    by (intro s2_raster_cases) simp
  then obtain b2 b3 b4 b5 b8 b11 b12 where
    r: "r = [(''B2'', b2), (''B3'', b3), (''B4'', b4), (''B5'', b5), (''B8'', b8),
          (''B11'', b11), (''B12'', b12)]"
    by (elim exE) (erule that)
  from a have v: "b8 p = Some nir" "b4 p = Some red" "b2 p = Some blue" "b3 p = Some green"
    "b5 p = Some rededge" "b11 p = Some swir"
    by (simp_all add: r band_value_def)
  show "band_value (compute_indices (Inr r)) ''NDVI'' p = Some ((nir - red) / (nir + red))"
    by (simp add: r compute_indices_explicit band_value_def lift2_def v)
  show "band_value (compute_indices (Inr r)) ''EVI'' p =
      Some (2.5 * (nir - red) / (nir + 6 * red - 7.5 * blue + 1))"
    by (simp add: r compute_indices_explicit band_value_def lift2_def v mult.commute)
  show "band_value (compute_indices (Inr r)) ''GNDVI'' p = Some ((nir - green) / (nir + green))"
    by (simp add: r compute_indices_explicit band_value_def lift2_def v)
  show "band_value (compute_indices (Inr r)) ''SAVI'' p =
      Some (1.5 * (nir - red) / (nir + red + 0.5))"
    by (simp add: r compute_indices_explicit band_value_def lift2_def v mult.commute)
  show "band_value (compute_indices (Inr r)) ''NDWI'' p = Some ((green - nir) / (green + nir))"
    by (simp add: r compute_indices_explicit band_value_def lift2_def v)
  show "band_value (compute_indices (Inr r)) ''NDMI'' p = Some ((nir - swir) / (nir + swir))"
    by (simp add: r compute_indices_explicit band_value_def lift2_def v)
  show "band_value (compute_indices (Inr r)) ''RENDVI'' p =
      Some ((rededge - red) / (rededge + red))"
    by (simp add: r compute_indices_explicit band_value_def lift2_def v)
next
  show "(let out = compute_indices (Inr [(''B2'', \<lambda>q. Some 0.05), (''B3'', \<lambda>q. Some 0.2),
         (''B4'', \<lambda>q. Some 0.1), (''B5'', \<lambda>q. Some 0.3), (''B8'', \<lambda>q. Some 0.5),
         (''B11'', \<lambda>q. Some 0.15), (''B12'', b12)])
    in band_value out ''NDVI'' p = Some (2 / 3) \<and> \<bar>2 / 3 - 0.6667\<bar> \<le> (0.0001 :: real) \<and>
       band_value out ''EVI'' p = Some (40 / 69) \<and> \<bar>40 / 69 - 0.5797\<bar> \<le> (0.00005 :: real) \<and>
       band_value out ''GNDVI'' p = Some (3 / 7) \<and> \<bar>3 / 7 - 0.4286\<bar> \<le> (0.00005 :: real) \<and>
       band_value out ''SAVI'' p = Some (6 / 11) \<and> \<bar>6 / 11 - 0.5455\<bar> \<le> (0.00005 :: real) \<and>
       band_value out ''NDWI'' p = Some (- 3 / 7) \<and> \<bar>- 3 / 7 + 0.4286\<bar> \<le> (0.00005 :: real) \<and>
       band_value out ''NDMI'' p = Some (7 / 13) \<and> \<bar>7 / 13 - 0.5385\<bar> \<le> (0.00005 :: real) \<and>
       band_value out ''RENDVI'' p = Some 0.5)"
    by (simp add: compute_indices_explicit band_value_def lift2_def Let_def)
qed

theorem compute_indices_formulas_witness:
  "band_value (compute_indices (Inr [(''B2'', \<lambda>q. Some 0.05), (''B3'', \<lambda>q. Some 0.2),
      (''B4'', \<lambda>q. Some 0.1), (''B5'', \<lambda>q. Some 0.3), (''B8'', \<lambda>q. Some 0.5),
      (''B11'', \<lambda>q. Some 0.15), (''B12'', \<lambda>q. Some 0.1)])) ''NDVI'' (0, 0)
     = Some ((0.5 - 0.1) / (0.5 + 0.1)) \<and>
   band_value (compute_indices (Inr [(''B2'', \<lambda>q. Some 0.05), (''B3'', \<lambda>q. Some 0.2),
      (''B4'', \<lambda>q. Some 0.1), (''B5'', \<lambda>q. Some 0.3), (''B8'', \<lambda>q. Some 0.5),
      (''B11'', \<lambda>q. Some 0.15), (''B12'', \<lambda>q. Some 0.1)])) ''RENDVI'' (0, 0)
     = Some ((0.3 - 0.1) / (0.3 + 0.1))"
  using compute_indices_formulas [where r = "[(''B2'', \<lambda>q. Some 0.05), (''B3'', \<lambda>q. Some 0.2),
      (''B4'', \<lambda>q. Some 0.1), (''B5'', \<lambda>q. Some 0.3), (''B8'', \<lambda>q. Some 0.5),
      (''B11'', \<lambda>q. Some 0.15), (''B12'', \<lambda>q. Some 0.1)]" and p = "(0, 0)" and nir = "0.5"
      and red = "0.1" and blue = "0.05" and green = "0.2" and rededge = "0.3"
      and swir = "0.15"]
  by (simp add: band_value_def)

section \<open>Properties of the month ranges\<close>

lemma str_int_2019: "str_int 2019 = ''2019''"
  by (simp add: str_int_def str_nat.simps digit_char_def)

text \<open>
  Claim C8. For each of the six processing months the date range handed to the filter
  starts on day 01 and ends on day 30 for September and November and on day 31 for July,
  August, October and December; the optical builder computes the same ranges as the
  radar builder.
\<close>

theorem month_date_ranges:
  "map (\<lambda>m. (s1_start_date year m, s1_end_date year m)) (map fst s1_month_names) =
     [(str_int year @ ''-07-01'', str_int year @ ''-07-31''),
      (str_int year @ ''-08-01'', str_int year @ ''-08-31''),
      (str_int year @ ''-09-01'', str_int year @ ''-09-30''),
      (str_int year @ ''-10-01'', str_int year @ ''-10-31''),
      (str_int year @ ''-11-01'', str_int year @ ''-11-30''),
      (str_int year @ ''-12-01'', str_int year @ ''-12-31'')] \<and>
   map (\<lambda>m. (s2_start_date year m, s2_end_date year m)) (map fst s2_month_names) =
   map (\<lambda>m. (s1_start_date year m, s1_end_date year m)) (map fst s1_month_names)"
  by (simp add: s1_month_names_def s2_month_names_def s1_start_date_def s1_end_date_def
      s2_start_date_def s2_end_date_def)

theorem month_date_ranges_witness:
  "map (\<lambda>m. (s1_start_date 2019 m, s1_end_date 2019 m)) (map fst s1_month_names) =
     [(''2019-07-01'', ''2019-07-31''),
      (''2019-08-01'', ''2019-08-31''),
      (''2019-09-01'', ''2019-09-30''),
      (''2019-10-01'', ''2019-10-31''),
      (''2019-11-01'', ''2019-11-30''),
      (''2019-12-01'', ''2019-12-31'')] \<and>
   map (\<lambda>m. (s2_start_date 2019 m, s2_end_date 2019 m)) (map fst s2_month_names) =
   map (\<lambda>m. (s1_start_date 2019 m, s1_end_date 2019 m)) (map fst s1_month_names)"
  using month_date_ranges [of 2019] by (simp add: str_int_2019)

section \<open>Properties of the batching\<close>

lemma iloc_batch:
  assumes "0 < b"
  shows "iloc df (int i * b) (min ((int i + 1) * b) (int (length df)))
         = take (nat b) (drop (i * nat b) df)"
proof -
  have s: "nat (int i * b) = i * nat b"
    using assms by (simp add: nat_mult_distrib)
  show ?thesis
  proof (cases "(int i + 1) * b \<le> int (length df)")
    case True
    then have "min ((int i + 1) * b) (int (length df)) - int i * b = b"
      by (simp add: algebra_simps)
    then show ?thesis by (simp add: iloc_def s)
  next
    case False
    then have m: "min ((int i + 1) * b) (int (length df)) = int (length df)" by simp
    have "int (length df) - int i * b \<le> b" using False by (simp add: algebra_simps)
    then have "int (length df) \<le> int (i * nat b + nat b)"
      using assms by (simp add: algebra_simps)
    then have "length df - i * nat b \<le> nat b"
      by linarith
    moreover have "nat (int (length df) - int i * b) = length df - i * nat b"
    proof -
      have "0 \<le> int i * b" using assms by simp
      then have "nat (int (length df) - int i * b) = nat (int (length df)) - nat (int i * b)"
        by (simp add: nat_diff_distrib')
      then show ?thesis by (simp add: s)
    qed
    ultimately show ?thesis by (simp add: iloc_def s m)
  qed
qed

lemma concat_slices:
  "concat (map (\<lambda>i. take B (drop (i * B) df)) [0 ..< k]) = take (k * B) df"
proof (induction k)
  case 0
  then show ?case by simp
next
  case (Suc k)
  have "take (k * B) df @ take B (drop (k * B) df) = take (k * B + B) df"
    by (simp add: take_add)
  with Suc show ?case by (simp add: add.commute)
qed



lemma ceil_div:
  assumes "0 < (b::int)"
  shows "(n + b - 1) div b = - ((- n) div b)"
proof (cases "n mod b = 0")
  case True
  then obtain q where q: "n = q * b" by (metis mod_eq_0_iff_dvd dvd_def mult.commute)
  have "(q * b + (b - 1)) div b = q + (b - 1) div b"
    using assms by (simp add: div_mult_self3)
  moreover have "(b - 1) div b = 0" using assms by (simp add: div_pos_pos_trivial)
  ultimately have "(n + b - 1) div b = q" by (simp add: q algebra_simps)
  moreover have "(- n) div b = - q"
  proof -
    have "- n = (- q) * b" by (simp add: q)
    then show ?thesis using assms by (metis nonzero_mult_div_cancel_right less_irrefl)
  qed
  ultimately show ?thesis by simp
next
  case False
  define q where "q = n div b"
  define r where "r = n mod b"
  have n: "n = q * b + r" by (simp add: q_def r_def)
  have "0 \<le> n mod b" "n mod b < b"
    using assms by (simp_all add: pos_mod_sign pos_mod_bound)
  then have r: "0 < r" "r < b" using False by (simp_all add: r_def)
  have "(n + b - 1) = (q + 1) * b + (r - 1)" by (simp add: n algebra_simps)
  moreover have "((q + 1) * b + (r - 1)) div b = (q + 1) + (r - 1) div b"
    using assms by (simp only: div_mult_self3)
  ultimately have "(n + b - 1) div b = (q + 1) + (r - 1) div b"
    by (simp only:)
  moreover have "(r - 1) div b = 0" using r by (simp add: div_pos_pos_trivial)
  ultimately have a: "(n + b - 1) div b = q + 1" by simp
  have "(- n) div b = - (n div b) - 1"
    using False assms by (simp add: zdiv_zminus1_eq_if)
  then show ?thesis using a by (simp add: q_def)
qed


lemma num_batches_ceiling:
  assumes "0 < b"
  shows "num_batches n b = \<lceil>real_of_int n / real_of_int b\<rceil>"
  using ceil_div [OF assms, of n] by (simp add: num_batches_def ceiling_divide_eq_div)

lemma num_batches_covers:
  assumes "0 < b"
  shows "length df \<le> nat (num_batches (int (length df)) b) * nat b"
proof -
  let ?n = "int (length df)"
  have "(?n + b - 1) mod b < b" using assms by (simp add: pos_mod_bound)
  moreover have "(?n + b - 1) div b * b + (?n + b - 1) mod b = ?n + b - 1" by simp
  ultimately have "?n \<le> (?n + b - 1) div b * b" by linarith
  moreover have "0 \<le> (?n + b - 1) div b" using assms by (simp add: pos_imp_zdiv_nonneg_iff)
  ultimately have "?n \<le> int (nat ((?n + b - 1) div b) * nat b)"
    using assms by simp
  then show ?thesis unfolding num_batches_def by linarith
qed

lemma batches_slices:
  assumes "0 < b"
  shows "batches b df =
         map (\<lambda>i. (int i, take (nat b) (drop (i * nat b) df)))
           [0 ..< nat (num_batches (int (length df)) b)]"
  using assms by (simp add: batches_def iloc_batch)

lemma batches_concat:
  assumes "0 < b"
  shows "concat (map snd (batches b df)) = df"
proof -
  have "concat (map snd (batches b df)) =
        concat (map (\<lambda>i. take (nat b) (drop (i * nat b) df))
          [0 ..< nat (num_batches (int (length df)) b)])"
    by (simp add: batches_slices [OF assms] comp_def)
  also have "\<dots> = take (nat (num_batches (int (length df)) b) * nat b) df"
    by (rule concat_slices)
  also have "\<dots> = df" using num_batches_covers [OF assms, of df] by simp
  finally show ?thesis .
qed

lemma map_fst_label:
  "map fst (map (\<lambda>(i, lon, lat). (int i, lon, lat)) zs) = map int (map fst zs)"
  by (induction zs) auto

lemma read_csv_ids: "map fst (read_csv rows) = map int [0 ..< length rows]"
proof -
  have "map fst (zip [0 ..< length rows] rows) = [0 ..< length rows]" by simp
  then show ?thesis unfolding read_csv_def map_fst_label by (simp only:)
qed

text \<open>
  Claim C3. For a batch size \<open>b > 0\<close> the batching loop produces exactly
  \<open>\<lceil>N / b\<rceil>\<close> batches; batch \<open>i\<close> is the contiguous slice of at most \<open>b\<close> rows that starts
  at row \<open>i * b\<close>, and the batches concatenated in batch order are the input in input
  order. For 9000 rows and the batch size 4000 of the script there are three batches of
  sizes 4000, 4000 and 1000, and their ids are 0, ..., 8999, each once.
\<close>

theorem batches_partition:
  "(0 < b \<longrightarrow>
      int (length (batches b df)) = \<lceil>real (length df) / real_of_int b\<rceil> \<and>
      concat (map snd (batches b df)) = df \<and>
      (i < length (batches b df) \<longrightarrow>
         batches b df ! i = (int i, take (nat b) (drop (i * nat b) df)) \<and>
         int (length (snd (batches b df ! i))) \<le> b)) \<and>
   (length rows = 9000 \<longrightarrow>
      map (\<lambda>(batch_idx, batch_df). length batch_df) (batches batch_size (read_csv rows))
        = [4000, 4000, 1000] \<and>
      map fst (concat (map snd (batches batch_size (read_csv rows)))) = map int [0 ..< 9000] \<and>
      distinct (map fst (concat (map snd (batches batch_size (read_csv rows))))) \<and>
      set (map fst (concat (map snd (batches batch_size (read_csv rows))))) = {0 .. 8999})"
proof (intro conjI impI)
  assume b: "0 < b"
  have "0 \<le> num_batches (int (length df)) b"
    using b by (simp add: num_batches_def pos_imp_zdiv_nonneg_iff)
  then have "int (length (batches b df)) = num_batches (int (length df)) b"
    by (simp add: batches_def)
  then show "int (length (batches b df)) = \<lceil>real (length df) / real_of_int b\<rceil>"
    using num_batches_ceiling [OF b, of "int (length df)"] by simp
  show "concat (map snd (batches b df)) = df" by (rule batches_concat [OF b])
  assume i: "i < length (batches b df)"
  then have i': "i < nat (num_batches (int (length df)) b)" by (simp add: batches_def)
  then show e: "batches b df ! i = (int i, take (nat b) (drop (i * nat b) df))"
    by (simp add: batches_slices [OF b])
  show "int (length (snd (batches b df ! i))) \<le> b" using b by (simp add: e)
next
  assume n: "length rows = 9000"
  have l: "length (read_csv rows) = 9000" by (simp add: read_csv_def n)
  have nb: "nat (num_batches 9000 4000) = 3" by (simp add: num_batches_def)
  have u: "[0 ..< 3] = [0, 1, Suc 1]" by (simp add: upt_rec)
  show "map (\<lambda>(batch_idx, batch_df). length batch_df) (batches batch_size (read_csv rows))
        = [4000, 4000, 1000]"
    by (simp add: batches_def batch_size_def l nb u iloc_def)
  have c: "concat (map snd (batches batch_size (read_csv rows))) = read_csv rows"
    by (rule batches_concat) (simp add: batch_size_def)
  show ids: "map fst (concat (map snd (batches batch_size (read_csv rows)))) = map int [0 ..< 9000]"
    by (simp add: c read_csv_ids n)
  show "distinct (map fst (concat (map snd (batches batch_size (read_csv rows)))))"
    by (simp only: ids) (simp add: distinct_map)
  show "set (map fst (concat (map snd (batches batch_size (read_csv rows))))) = {0 .. 8999}"
  proof -
    have "int ` {0 ..< 9000} = {0 ..< 9000}" by (simp add: image_int_atLeastLessThan)
    also have "\<dots> = {0 .. (8999 :: int)}" by auto
    finally show ?thesis by (simp only: ids set_map set_upt)
  qed
qed

theorem batches_partition_witness:
  "int (length (batches 2 [10, 20, 30 :: nat])) = 2 \<and>
   concat (map snd (batches 2 [10, 20, 30 :: nat])) = [10, 20, 30] \<and>
   batches 2 [10, 20, 30 :: nat] ! 1 = (1, [30]) \<and>
   map (\<lambda>(batch_idx, batch_df). length batch_df)
     (batches batch_size (read_csv (replicate 9000 (0, 0)))) = [4000, 4000, 1000] \<and>
   distinct (map fst (concat (map snd (batches batch_size (read_csv (replicate 9000 (0, 0)))))))"
proof -
  have l: "length (batches 2 [10, 20, 30 :: nat]) = 2"
    by (simp add: batches_def num_batches_def)
  have c: "\<lceil>real (length [10, 20, 30 :: nat]) / real_of_int 2\<rceil> = 2"
    by (simp add: ceiling_eq_iff)
  show ?thesis
    using batches_partition [where b = 2 and df = "[10, 20, 30 :: nat]" and i = 1
        and rows = "replicate 9000 (0, 0)"]
    by (simp add: l distinct_map)
qed

section \<open>Properties of the sampled rows\<close>

lemma data_list_map:
  "(\<forall>f \<in> set fs. to_row f = Inr (g f)) \<Longrightarrow> data_list to_row fs = Inr (map g fs)"
  by (induction fs) simp_all

lemma s1_row_explicit:
  assumes "properties f ''id'' \<noteq> None" and "2 \<le> length (coordinates f)"
  shows "s1_row f = Inr ((\<lambda>f. [(''id'', the (properties f ''id'')),
                     (''Longitude'', PyFloat (coordinates f ! 0)),
                     (''Latitude'', PyFloat (coordinates f ! 1)),
                     (''VV'', case properties f ''VV'' of None \<Rightarrow> PyInt 0 | Some v \<Rightarrow> v),
                     (''VH'', case properties f ''VH'' of None \<Rightarrow> PyInt 0 | Some v \<Rightarrow> v),
                     (''VH_VV'', case properties f ''VH_VV'' of None \<Rightarrow> PyInt 0 | Some v \<Rightarrow> v)]) f)"
proof -
  from assms(2) obtain lon lat rest where g: "coordinates f = lon # lat # rest"
    by (cases "coordinates f"; cases "tl (coordinates f)") auto
  from assms(1) obtain i where i: "properties f ''id'' = Some i" by auto
  show ?thesis by (simp add: s1_row_def Let_def g i get_or_zero_def)
qed

lemma s2_row_explicit:
  assumes "properties f ''id'' \<noteq> None" and "2 \<le> length (coordinates f)"
  shows "s2_row f = Inr ((\<lambda>f. [(''id'', the (properties f ''id'')),
                     (''Longitude'', PyFloat (coordinates f ! 0)),
                     (''Latitude'', PyFloat (coordinates f ! 1)),
                     (''NDVI'', case properties f ''NDVI'' of None \<Rightarrow> PyInt 0 | Some v \<Rightarrow> v),
                     (''EVI'', case properties f ''EVI'' of None \<Rightarrow> PyInt 0 | Some v \<Rightarrow> v),
                     (''GNDVI'', case properties f ''GNDVI'' of None \<Rightarrow> PyInt 0 | Some v \<Rightarrow> v),
                     (''SAVI'', case properties f ''SAVI'' of None \<Rightarrow> PyInt 0 | Some v \<Rightarrow> v),
                     (''NDWI'', case properties f ''NDWI'' of None \<Rightarrow> PyInt 0 | Some v \<Rightarrow> v),
                     (''NDMI'', case properties f ''NDMI'' of None \<Rightarrow> PyInt 0 | Some v \<Rightarrow> v),
                     (''RENDVI'', case properties f ''RENDVI'' of None \<Rightarrow> PyInt 0 | Some v \<Rightarrow> v)]) f)"
proof -
  from assms(2) obtain lon lat rest where g: "coordinates f = lon # lat # rest"
    by (cases "coordinates f"; cases "tl (coordinates f)") auto
  from assms(1) obtain i where i: "properties f ''id'' = Some i" by auto
  show ?thesis by (simp add: s2_row_def Let_def g i get_or_zero_def)
qed

text \<open>
  Claim C9. An exporter turns the features the bulk sampling request returned into the
  rows of its output file, one row per feature and in the order of the features. When
  every returned feature carries an \<open>id\<close> and two coordinates, the row of a feature holds
  the feature's id, longitude and latitude unchanged, and each band or index column
  holds the feature's property of that name, or the integer 0 when the property is absent
  from the feature's dictionary. This is what the loop over the features builds, what the
  body of the \<open>try\<close> writes when the write does not fail, and what the file of the unit
  holds after the radar and the optical exporter have returned.
\<close>

theorem sampled_rows_written:
  assumes wf: "\<forall>f \<in> set features. properties f ''id'' \<noteq> None \<and> 2 \<le> length (coordinates f)"
  shows
  "(let row1 = (\<lambda>f. [(''id'', the (properties f ''id'')),
                     (''Longitude'', PyFloat (coordinates f ! 0)),
                     (''Latitude'', PyFloat (coordinates f ! 1)),
                     (''VV'', case properties f ''VV'' of None \<Rightarrow> PyInt 0 | Some v \<Rightarrow> v),
                     (''VH'', case properties f ''VH'' of None \<Rightarrow> PyInt 0 | Some v \<Rightarrow> v),
                     (''VH_VV'', case properties f ''VH_VV'' of None \<Rightarrow> PyInt 0 | Some v \<Rightarrow> v)]);
        row2 = (\<lambda>f. [(''id'', the (properties f ''id'')),
                     (''Longitude'', PyFloat (coordinates f ! 0)),
                     (''Latitude'', PyFloat (coordinates f ! 1)),
                     (''NDVI'', case properties f ''NDVI'' of None \<Rightarrow> PyInt 0 | Some v \<Rightarrow> v),
                     (''EVI'', case properties f ''EVI'' of None \<Rightarrow> PyInt 0 | Some v \<Rightarrow> v),
                     (''GNDVI'', case properties f ''GNDVI'' of None \<Rightarrow> PyInt 0 | Some v \<Rightarrow> v),
                     (''SAVI'', case properties f ''SAVI'' of None \<Rightarrow> PyInt 0 | Some v \<Rightarrow> v),
                     (''NDWI'', case properties f ''NDWI'' of None \<Rightarrow> PyInt 0 | Some v \<Rightarrow> v),
                     (''NDMI'', case properties f ''NDMI'' of None \<Rightarrow> PyInt 0 | Some v \<Rightarrow> v),
                     (''RENDVI'', case properties f ''RENDVI'' of None \<Rightarrow> PyInt 0 | Some v \<Rightarrow> v)]);
        file1 = (output_dir, ''s1_'' @ lower month @ ''_2019_batch'' @ str_int batch_idx @ ''.csv'');
        file2 = (output_dir, ''s2_'' @ lower month @ ''_2019_batch'' @ str_int batch_idx @ ''.csv'')
    in data_list s1_row features = Inr (map row1 features) \<and>
       data_list s2_row features = Inr (map row2 features) \<and>
       (\<forall>img. getInfo bk img points = Inr features \<and> to_csv_raises bk file1 = None \<longrightarrow>
          export_body bk s1_row msg img points file1 st =
            Inr (logger INFO msg (st\<lparr>files := (files st)(file1 \<mapsto> map row1 features)\<rparr>))) \<and>
       (\<forall>img. getInfo bk img points = Inr features \<and> to_csv_raises bk file2 = None \<longrightarrow>
          export_body bk s2_row msg img points file2 st =
            Inr (logger INFO msg (st\<lparr>files := (files st)(file2 \<mapsto> map row2 features)\<rparr>))) \<and>
       (\<forall>img. s1_month_vars st month = Some img \<and> getInfo bk img points = Inr features \<and>
              to_csv_raises bk file1 = None \<longrightarrow>
          fst (export_sentinel_1_data bk points month batch_idx output_dir st) = None \<and>
          files (snd (export_sentinel_1_data bk points month batch_idx output_dir st)) =
            (files st)(file1 \<mapsto> map row1 features)) \<and>
       (\<forall>img. s2_month_vars st month = Some img \<and> getInfo bk img points = Inr features \<and>
              to_csv_raises bk file2 = None \<longrightarrow>
          fst (export_sentinel_2_data bk points month batch_idx output_dir st) = None \<and>
          files (snd (export_sentinel_2_data bk points month batch_idx output_dir st)) =
            (files st)(file2 \<mapsto> map row2 features)))"
proof -
  have d1: "data_list s1_row features = Inr (map (\<lambda>f. [(''id'', the (properties f ''id'')),
                     (''Longitude'', PyFloat (coordinates f ! 0)),
                     (''Latitude'', PyFloat (coordinates f ! 1)),
                     (''VV'', case properties f ''VV'' of None \<Rightarrow> PyInt 0 | Some v \<Rightarrow> v),
                     (''VH'', case properties f ''VH'' of None \<Rightarrow> PyInt 0 | Some v \<Rightarrow> v),
                     (''VH_VV'', case properties f ''VH_VV'' of None \<Rightarrow> PyInt 0 | Some v \<Rightarrow> v)]) features)"
    by (rule data_list_map) (use wf in \<open>simp add: s1_row_explicit\<close>)
  have d2: "data_list s2_row features = Inr (map (\<lambda>f. [(''id'', the (properties f ''id'')),
                     (''Longitude'', PyFloat (coordinates f ! 0)),
                     (''Latitude'', PyFloat (coordinates f ! 1)),
                     (''NDVI'', case properties f ''NDVI'' of None \<Rightarrow> PyInt 0 | Some v \<Rightarrow> v),
                     (''EVI'', case properties f ''EVI'' of None \<Rightarrow> PyInt 0 | Some v \<Rightarrow> v),
                     (''GNDVI'', case properties f ''GNDVI'' of None \<Rightarrow> PyInt 0 | Some v \<Rightarrow> v),
                     (''SAVI'', case properties f ''SAVI'' of None \<Rightarrow> PyInt 0 | Some v \<Rightarrow> v),
                     (''NDWI'', case properties f ''NDWI'' of None \<Rightarrow> PyInt 0 | Some v \<Rightarrow> v),
                     (''NDMI'', case properties f ''NDMI'' of None \<Rightarrow> PyInt 0 | Some v \<Rightarrow> v),
                     (''RENDVI'', case properties f ''RENDVI'' of None \<Rightarrow> PyInt 0 | Some v \<Rightarrow> v)]) features)"
    by (rule data_list_map) (use wf in \<open>simp add: s2_row_explicit\<close>)
  show ?thesis
    unfolding Let_def
  proof (intro conjI allI impI)
    show "data_list s1_row features = Inr (map (\<lambda>f. [(''id'', the (properties f ''id'')),
                     (''Longitude'', PyFloat (coordinates f ! 0)),
                     (''Latitude'', PyFloat (coordinates f ! 1)),
                     (''VV'', case properties f ''VV'' of None \<Rightarrow> PyInt 0 | Some v \<Rightarrow> v),
                     (''VH'', case properties f ''VH'' of None \<Rightarrow> PyInt 0 | Some v \<Rightarrow> v),
                     (''VH_VV'', case properties f ''VH_VV'' of None \<Rightarrow> PyInt 0 | Some v \<Rightarrow> v)]) features)" by (rule d1)
  next
    show "data_list s2_row features = Inr (map (\<lambda>f. [(''id'', the (properties f ''id'')),
                     (''Longitude'', PyFloat (coordinates f ! 0)),
                     (''Latitude'', PyFloat (coordinates f ! 1)),
                     (''NDVI'', case properties f ''NDVI'' of None \<Rightarrow> PyInt 0 | Some v \<Rightarrow> v),
                     (''EVI'', case properties f ''EVI'' of None \<Rightarrow> PyInt 0 | Some v \<Rightarrow> v),
                     (''GNDVI'', case properties f ''GNDVI'' of None \<Rightarrow> PyInt 0 | Some v \<Rightarrow> v),
                     (''SAVI'', case properties f ''SAVI'' of None \<Rightarrow> PyInt 0 | Some v \<Rightarrow> v),
                     (''NDWI'', case properties f ''NDWI'' of None \<Rightarrow> PyInt 0 | Some v \<Rightarrow> v),
                     (''NDMI'', case properties f ''NDMI'' of None \<Rightarrow> PyInt 0 | Some v \<Rightarrow> v),
                     (''RENDVI'', case properties f ''RENDVI'' of None \<Rightarrow> PyInt 0 | Some v \<Rightarrow> v)]) features)" by (rule d2)
  qed (simp_all add: d1 d2 export_body_def export_sentinel_1_data_def
         export_sentinel_2_data_def except_EEException_def logger_def)
qed

theorem sampled_rows_written_witness:
  "files (snd (export_sentinel_1_data \<lparr>geometry_file = Inr (\<lambda>q. True), s1_catalog = [], s1_raises = (\<lambda>m. None),
        s2_sr_catalog = [], s2_cloud_catalog = [], s2_raises = (\<lambda>m. None),
        ddt = (\<lambda>b a d q. None),
        sample_regions = (\<lambda>r points.
          Inr [\<lparr>properties = [''id'' \<mapsto> PyInt 0, ''VV'' \<mapsto> PyFloat (- 12), ''NDVI'' \<mapsto> PyFloat 0.5],
                coordinates = [77.1, 13.3]\<rparr>,
               \<lparr>properties = [''id'' \<mapsto> PyInt 1], coordinates = [77.2, 13.4]\<rparr>]),
        to_csv_raises = (\<lambda>f. None)\<rparr> [(0, 77.1, 13.3), (1, 77.2, 13.4)] ''July'' 0 ''Output'' (initial_state\<lparr>s1_globals := [''july_s1'' \<mapsto> Inr [(''VV'', \<lambda>q. Some 1)]],
                      s2_globals := [''july_s2'' \<mapsto> Inr [(''NDVI'', \<lambda>q. Some 1)]]\<rparr>)))
     (''Output'', ''s1_july_2019_batch0.csv'') =
   Some [[(''id'', PyInt 0), (''Longitude'', PyFloat 77.1), (''Latitude'', PyFloat 13.3),
          (''VV'', PyFloat (- 12)), (''VH'', PyInt 0), (''VH_VV'', PyInt 0)],
         [(''id'', PyInt 1), (''Longitude'', PyFloat 77.2), (''Latitude'', PyFloat 13.4),
          (''VV'', PyInt 0), (''VH'', PyInt 0), (''VH_VV'', PyInt 0)]] \<and>
   files (snd (export_sentinel_2_data \<lparr>geometry_file = Inr (\<lambda>q. True), s1_catalog = [], s1_raises = (\<lambda>m. None),
        s2_sr_catalog = [], s2_cloud_catalog = [], s2_raises = (\<lambda>m. None),
        ddt = (\<lambda>b a d q. None),
        sample_regions = (\<lambda>r points.
          Inr [\<lparr>properties = [''id'' \<mapsto> PyInt 0, ''VV'' \<mapsto> PyFloat (- 12), ''NDVI'' \<mapsto> PyFloat 0.5],
                coordinates = [77.1, 13.3]\<rparr>,
               \<lparr>properties = [''id'' \<mapsto> PyInt 1], coordinates = [77.2, 13.4]\<rparr>]),
        to_csv_raises = (\<lambda>f. None)\<rparr> [(0, 77.1, 13.3), (1, 77.2, 13.4)] ''July'' 0 ''Output'' (initial_state\<lparr>s1_globals := [''july_s1'' \<mapsto> Inr [(''VV'', \<lambda>q. Some 1)]],
                      s2_globals := [''july_s2'' \<mapsto> Inr [(''NDVI'', \<lambda>q. Some 1)]]\<rparr>)))
     (''Output'', ''s2_july_2019_batch0.csv'') =
   Some [[(''id'', PyInt 0), (''Longitude'', PyFloat 77.1), (''Latitude'', PyFloat 13.3),
          (''NDVI'', PyFloat 0.5), (''EVI'', PyInt 0), (''GNDVI'', PyInt 0), (''SAVI'', PyInt 0),
          (''NDWI'', PyInt 0), (''NDMI'', PyInt 0), (''RENDVI'', PyInt 0)],
         [(''id'', PyInt 1), (''Longitude'', PyFloat 77.2), (''Latitude'', PyFloat 13.4),
          (''NDVI'', PyInt 0), (''EVI'', PyInt 0), (''GNDVI'', PyInt 0), (''SAVI'', PyInt 0),
          (''NDWI'', PyInt 0), (''NDMI'', PyInt 0), (''RENDVI'', PyInt 0)]]"
proof -
  let ?bk = "\<lparr>geometry_file = Inr (\<lambda>q. True), s1_catalog = [], s1_raises = (\<lambda>m. None),
        s2_sr_catalog = [], s2_cloud_catalog = [], s2_raises = (\<lambda>m. None),
        ddt = (\<lambda>b a d q. None),
        sample_regions = (\<lambda>r points.
          Inr [\<lparr>properties = [''id'' \<mapsto> PyInt 0, ''VV'' \<mapsto> PyFloat (- 12), ''NDVI'' \<mapsto> PyFloat 0.5],
                coordinates = [77.1, 13.3]\<rparr>,
               \<lparr>properties = [''id'' \<mapsto> PyInt 1], coordinates = [77.2, 13.4]\<rparr>]),
        to_csv_raises = (\<lambda>f. None)\<rparr>"
  let ?st = "(initial_state\<lparr>s1_globals := [''july_s1'' \<mapsto> Inr [(''VV'', \<lambda>q. Some 1)]],
                      s2_globals := [''july_s2'' \<mapsto> Inr [(''NDVI'', \<lambda>q. Some 1)]]\<rparr>)"
  let ?fs = "[\<lparr>properties = [''id'' \<mapsto> PyInt 0, ''VV'' \<mapsto> PyFloat (- 12), ''NDVI'' \<mapsto> PyFloat 0.5],
                coordinates = [77.1, 13.3]\<rparr>,
               \<lparr>properties = [''id'' \<mapsto> PyInt 1], coordinates = [77.2, 13.4]\<rparr>]"
  have wf: "\<forall>f \<in> set ?fs. properties f ''id'' \<noteq> None \<and> 2 \<le> length (coordinates f)"
    by simp
  have h1: "s1_month_vars ?st ''July'' = Some (Inr [(''VV'', \<lambda>q. Some 1)])"
    by (simp add: s1_month_vars_def initial_state_def)
  have h2: "s2_month_vars ?st ''July'' = Some (Inr [(''NDVI'', \<lambda>q. Some 1)])"
    by (simp add: s2_month_vars_def initial_state_def)
  have g: "getInfo ?bk (Inr r) [(0, 77.1, 13.3), (1, 77.2, 13.4)] = Inr ?fs" for r
    by (simp add: getInfo_def)
  have n: "lower ''July'' = ''july''" "str_int 0 = ''0''"
    by (simp_all add: lower_def lower_char_def str_int_def str_nat.simps digit_char_def)
  show ?thesis
    using sampled_rows_written [OF wf, where bk = ?bk and st = ?st and month = "''July''"
        and points = "[(0, 77.1, 13.3), (1, 77.2, 13.4)]" and batch_idx = 0
        and output_dir = "''Output''"] h1 h2 g
    by (simp add: Let_def n)
qed

section \<open>Properties of the radar composite\<close>

lemma select_bands_names: "select_bands ns r = Inr out \<Longrightarrow> map fst out = ns"
  by (induction ns arbitrary: out) (auto split: option.splits sum.splits)

lemma evaluate_all_map_hd:
  "evaluate_all (map f xs) = Inr (r # rs) \<Longrightarrow> \<exists>x. f x = Inr r"
  by (cases xs) (auto split: sum.splits)

lemma s1_collection_names:
  assumes "evaluate_all (s1_collection bk region sd ed) = Inr (r # rs)"
  shows "map fst r = [''VV'', ''VH'']"
proof -
  have "\<exists>s :: s1_scene. select [''VV'', ''VH''] (Inr (s1_raster s)) = Inr r"
    using assms unfolding s1_collection_def by (rule evaluate_all_map_hd)
  then obtain s :: s1_scene where "select [''VV'', ''VH''] (Inr (s1_raster s)) = Inr r" by blast
  then show ?thesis by (simp add: select_def on1_def select_bands_names)
qed

lemma s1_month_image_explicit:
  assumes "evaluate_all col = Inr (r # rs)" and "map fst r = [''VV'', ''VH'']"
  shows "s1_month_image col region =
         Inr [(''VV'', \<lambda>p. if region p then median (pixel_values (r # rs) ''VV'' p) else None),
              (''VH'', \<lambda>p. if region p then median (pixel_values (r # rs) ''VH'' p) else None),
              (''VH_VV'', lift2 (\<lambda>x y. x / y)
                 (\<lambda>p. if region p then median (pixel_values (r # rs) ''VH'' p) else None)
                 (\<lambda>p. if region p then median (pixel_values (r # rs) ''VV'' p) else None))]"
  using assms
  by (simp add: s1_month_image_def Let_def median_collection_def clip_def on1_def on2_def
      select_def rename_def divide_def addBands_def fresh_name_def)


lemma example_collection:
  "s1_collection (bk\<lparr>s1_catalog :=
         [\<lparr>s1_time = ''2019-07-03T00:30:00'', s1_footprint = [(0, 0)],
           transmitterReceiverPolarisation = [''VV'', ''VH''], instrumentMode = ''IW'',
           resolution_meters = 10, orbitProperties_pass = ''DESCENDING'',
           s1_raster = [(''VV'', \<lambda>q. Some (- 10)), (''VH'', \<lambda>q. Some (- 18))]\<rparr>,
          \<lparr>s1_time = ''2019-07-09T00:30:00'', s1_footprint = [(0, 0)],
           transmitterReceiverPolarisation = [''VV'', ''VH''], instrumentMode = ''IW'',
           resolution_meters = 10, orbitProperties_pass = ''ASCENDING'',
           s1_raster = [(''VV'', \<lambda>q. Some (- 1)), (''VH'', \<lambda>q. Some (- 7))]\<rparr>,
          \<lparr>s1_time = ''2019-07-15T00:30:00'', s1_footprint = [(0, 0)],
           transmitterReceiverPolarisation = [''VV'', ''VH''], instrumentMode = ''IW'',
           resolution_meters = 10, orbitProperties_pass = ''DESCENDING'',
           s1_raster = [(''VV'', \<lambda>q. Some (- 12)), (''VH'', \<lambda>q. Some (- 30))]\<rparr>,
          \<lparr>s1_time = ''2019-07-27T00:30:00'', s1_footprint = [(0, 0)],
           transmitterReceiverPolarisation = [''VV'', ''VH''], instrumentMode = ''IW'',
           resolution_meters = 10, orbitProperties_pass = ''DESCENDING'',
           s1_raster = [(''VV'', \<lambda>q. Some (- 20)), (''VH'', \<lambda>q. Some (- 12))]\<rparr>,
          \<lparr>s1_time = ''2019-08-08T00:30:00'', s1_footprint = [(0, 0)],
           transmitterReceiverPolarisation = [''VV'', ''VH''], instrumentMode = ''IW'',
           resolution_meters = 10, orbitProperties_pass = ''DESCENDING'',
           s1_raster = [(''VV'', \<lambda>q. Some (- 2)), (''VH'', \<lambda>q. Some (- 3))]\<rparr>]\<rparr>)
       (\<lambda>q. True) ''2019-07-01'' ''2019-07-31'' =
   [Inr [(''VV'', \<lambda>q. Some (- 10)), (''VH'', \<lambda>q. Some (- 18))],
      Inr [(''VV'', \<lambda>q. Some (- 12)), (''VH'', \<lambda>q. Some (- 30))],
      Inr [(''VV'', \<lambda>q. Some (- 20)), (''VH'', \<lambda>q. Some (- 12))]]"
  by (simp add: s1_collection_def select_def on1_def)

lemma example_medians:
  "median [- 10, - 12, - 20] = Some (- 12)" "median [- 18, - 30, - 12] = Some (- 18)"
  "median [(- 18) / (- 10), (- 30) / (- 12), (- 12) / (- 20)] = Some 1.8"
  by (simp_all add: median_def)

lemma example_image:
  "s1_month_image (s1_collection (bk\<lparr>s1_catalog :=
         [\<lparr>s1_time = ''2019-07-03T00:30:00'', s1_footprint = [(0, 0)],
           transmitterReceiverPolarisation = [''VV'', ''VH''], instrumentMode = ''IW'',
           resolution_meters = 10, orbitProperties_pass = ''DESCENDING'',
           s1_raster = [(''VV'', \<lambda>q. Some (- 10)), (''VH'', \<lambda>q. Some (- 18))]\<rparr>,
          \<lparr>s1_time = ''2019-07-09T00:30:00'', s1_footprint = [(0, 0)],
           transmitterReceiverPolarisation = [''VV'', ''VH''], instrumentMode = ''IW'',
           resolution_meters = 10, orbitProperties_pass = ''ASCENDING'',
           s1_raster = [(''VV'', \<lambda>q. Some (- 1)), (''VH'', \<lambda>q. Some (- 7))]\<rparr>,
          \<lparr>s1_time = ''2019-07-15T00:30:00'', s1_footprint = [(0, 0)],
           transmitterReceiverPolarisation = [''VV'', ''VH''], instrumentMode = ''IW'',
           resolution_meters = 10, orbitProperties_pass = ''DESCENDING'',
           s1_raster = [(''VV'', \<lambda>q. Some (- 12)), (''VH'', \<lambda>q. Some (- 30))]\<rparr>,
          \<lparr>s1_time = ''2019-07-27T00:30:00'', s1_footprint = [(0, 0)],
           transmitterReceiverPolarisation = [''VV'', ''VH''], instrumentMode = ''IW'',
           resolution_meters = 10, orbitProperties_pass = ''DESCENDING'',
           s1_raster = [(''VV'', \<lambda>q. Some (- 20)), (''VH'', \<lambda>q. Some (- 12))]\<rparr>,
          \<lparr>s1_time = ''2019-08-08T00:30:00'', s1_footprint = [(0, 0)],
           transmitterReceiverPolarisation = [''VV'', ''VH''], instrumentMode = ''IW'',
           resolution_meters = 10, orbitProperties_pass = ''DESCENDING'',
           s1_raster = [(''VV'', \<lambda>q. Some (- 2)), (''VH'', \<lambda>q. Some (- 3))]\<rparr>]\<rparr>)
       (\<lambda>q. True) ''2019-07-01'' ''2019-07-31'') (\<lambda>q. True) =
   Inr [(''VV'', \<lambda>p. Some (- 12)), (''VH'', \<lambda>p. Some (- 18)), (''VH_VV'', \<lambda>p. Some 1.5)]"
  unfolding example_collection
  by (subst s1_month_image_explicit [where r = "[(''VV'', \<lambda>q. Some (- 10)), (''VH'', \<lambda>q. Some (- 18))]"
        and rs = "[[(''VV'', \<lambda>q. Some (- 12)), (''VH'', \<lambda>q. Some (- 30))],
                   [(''VV'', \<lambda>q. Some (- 20)), (''VH'', \<lambda>q. Some (- 12))]]"])
     (simp_all add: pixel_values_def List.map_filter_simps example_medians lift2_def)


text \<open>
  Claim C2. In a radar month image the band \<open>VH_VV\<close> is, pixel by pixel, the \<open>VH\<close> band
  of the median composite of the filtered collection divided by its \<open>VV\<close> band: the
  ratio is taken on the two per-pixel medians, not scene by scene, and without any unit
  conversion. With three scenes that pass the filters and have (VV, VH) = (-10, -18),
  (-12, -30), (-20, -12) the composite has VV = -12, VH = -18 and ratio exactly 1.5,
  while the median of the three per-scene ratios is 1.8.
\<close>

theorem s1_ratio_on_median:
  "(evaluate_all (s1_collection bk region sd ed) = Inr rs \<and> rs \<noteq> [] \<and> region p \<and>
    median (pixel_values rs ''VV'' p) = Some vv \<and> median (pixel_values rs ''VH'' p) = Some vh \<longrightarrow>
      band_value (s1_month_image (s1_collection bk region sd ed) region) ''VV'' p = Some vv \<and>
      band_value (s1_month_image (s1_collection bk region sd ed) region) ''VH'' p = Some vh \<and>
      band_value (s1_month_image (s1_collection bk region sd ed) region) ''VH_VV'' p
        = Some (vh / vv)) \<and>
   (let scene = (\<lambda>t orbit a b.
          \<lparr>s1_time = t, s1_footprint = [(0, 0)],
           transmitterReceiverPolarisation = [''VV'', ''VH''], instrumentMode = ''IW'',
           resolution_meters = 10, orbitProperties_pass = orbit,
           s1_raster = [(''VV'', \<lambda>q. Some a), (''VH'', \<lambda>q. Some b)]\<rparr>);
        img = s1_month_image
          (s1_collection
             (bk\<lparr>s1_catalog :=
                  [scene ''2019-07-03T00:30:00'' ''DESCENDING'' (- 10) (- 18),
                   scene ''2019-07-09T00:30:00'' ''ASCENDING'' (- 1) (- 7),
                   scene ''2019-07-15T00:30:00'' ''DESCENDING'' (- 12) (- 30),
                   scene ''2019-07-27T00:30:00'' ''DESCENDING'' (- 20) (- 12),
                   scene ''2019-08-08T00:30:00'' ''DESCENDING'' (- 2) (- 3)]\<rparr>)
             (\<lambda>q. True) ''2019-07-01'' ''2019-07-31'')
          (\<lambda>q. True)
    in band_value img ''VV'' (0, 0) = Some (- 12) \<and>
       band_value img ''VH'' (0, 0) = Some (- 18) \<and>
       band_value img ''VH_VV'' (0, 0) = Some 1.5 \<and>
       median [(- 18) / (- 10), (- 30) / (- 12), (- 12) / (- 20)] = Some 1.8)"
proof (intro conjI impI)
  assume a: "evaluate_all (s1_collection bk region sd ed) = Inr rs \<and> rs \<noteq> [] \<and> region p \<and>
    median (pixel_values rs ''VV'' p) = Some vv \<and> median (pixel_values rs ''VH'' p) = Some vh"
  then obtain r rs' where rs: "rs = r # rs'" by (cases rs) auto
  with a have e: "evaluate_all (s1_collection bk region sd ed) = Inr (r # rs')" by simp
  then have n: "map fst r = [''VV'', ''VH'']" by (rule s1_collection_names)
  note x = s1_month_image_explicit [OF e n, of region]
  from a show "band_value (s1_month_image (s1_collection bk region sd ed) region) ''VV'' p = Some vv"
    by (simp add: x band_value_def rs)
  from a show "band_value (s1_month_image (s1_collection bk region sd ed) region) ''VH'' p = Some vh"
    by (simp add: x band_value_def rs)
  from a show "band_value (s1_month_image (s1_collection bk region sd ed) region) ''VH_VV'' p
        = Some (vh / vv)"
    by (simp add: x band_value_def rs lift2_def)
next
  show "let scene = (\<lambda>t orbit a b.
          \<lparr>s1_time = t, s1_footprint = [(0, 0)],
           transmitterReceiverPolarisation = [''VV'', ''VH''], instrumentMode = ''IW'',
           resolution_meters = 10, orbitProperties_pass = orbit,
           s1_raster = [(''VV'', \<lambda>q. Some a), (''VH'', \<lambda>q. Some b)]\<rparr>);
        img = s1_month_image
          (s1_collection
             (bk\<lparr>s1_catalog :=
                  [scene ''2019-07-03T00:30:00'' ''DESCENDING'' (- 10) (- 18),
                   scene ''2019-07-09T00:30:00'' ''ASCENDING'' (- 1) (- 7),
                   scene ''2019-07-15T00:30:00'' ''DESCENDING'' (- 12) (- 30),
                   scene ''2019-07-27T00:30:00'' ''DESCENDING'' (- 20) (- 12),
                   scene ''2019-08-08T00:30:00'' ''DESCENDING'' (- 2) (- 3)]\<rparr>)
             (\<lambda>q. True) ''2019-07-01'' ''2019-07-31'')
          (\<lambda>q. True)
    in band_value img ''VV'' (0, 0) = Some (- 12) \<and>
       band_value img ''VH'' (0, 0) = Some (- 18) \<and>
       band_value img ''VH_VV'' (0, 0) = Some 1.5 \<and>
       median [(- 18) / (- 10), (- 30) / (- 12), (- 12) / (- 20)] = Some 1.8"
    unfolding Let_def example_image example_medians by (simp add: band_value_def)
qed

theorem s1_ratio_on_median_witness:
  "band_value (s1_month_image (s1_collection
      \<lparr>geometry_file = Inr (\<lambda>q. True),
       s1_catalog = [\<lparr>s1_time = ''2019-07-03T00:30:00'', s1_footprint = [(0, 0)],
           transmitterReceiverPolarisation = [''VV'', ''VH''], instrumentMode = ''IW'',
           resolution_meters = 10, orbitProperties_pass = ''DESCENDING'',
           s1_raster = [(''VV'', \<lambda>q. Some (- 12)), (''VH'', \<lambda>q. Some (- 18))]\<rparr>],
       s1_raises = (\<lambda>m. None), s2_sr_catalog = [], s2_cloud_catalog = [],
       s2_raises = (\<lambda>m. None), ddt = (\<lambda>b a d q. None),
       sample_regions = (\<lambda>r points. Inr []), to_csv_raises = (\<lambda>f. None)\<rparr>
      (\<lambda>q. True) ''2019-07-01'' ''2019-07-31'') (\<lambda>q. True)) ''VH_VV'' (0, 0) = Some 1.5"
proof -
  let ?bk = "\<lparr>geometry_file = Inr (\<lambda>q. True),
       s1_catalog = [\<lparr>s1_time = ''2019-07-03T00:30:00'', s1_footprint = [(0, 0)],
           transmitterReceiverPolarisation = [''VV'', ''VH''], instrumentMode = ''IW'',
           resolution_meters = 10, orbitProperties_pass = ''DESCENDING'',
           s1_raster = [(''VV'', \<lambda>q. Some (- 12)), (''VH'', \<lambda>q. Some (- 18))]\<rparr>],
       s1_raises = (\<lambda>m. None), s2_sr_catalog = [], s2_cloud_catalog = [],
       s2_raises = (\<lambda>m. None), ddt = (\<lambda>b a d q. None),
       sample_regions = (\<lambda>r points. Inr []), to_csv_raises = (\<lambda>f. None)\<rparr>"
  have c: "s1_collection ?bk (\<lambda>q. True) ''2019-07-01'' ''2019-07-31'' =
           [Inr [(''VV'', \<lambda>q. Some (- 12)), (''VH'', \<lambda>q. Some (- 18))]]"
    by (simp add: s1_collection_def select_def on1_def)
  have m: "median [- 12] = Some (- 12)" "median [- 18] = Some (- 18)"
    by (simp_all add: median_def)
  have h: "evaluate_all (s1_collection ?bk (\<lambda>q. True) ''2019-07-01'' ''2019-07-31'') =
             Inr [[(''VV'', \<lambda>q. Some (- 12)), (''VH'', \<lambda>q. Some (- 18))]] \<and>
           [[(''VV'', \<lambda>q. Some (- 12)), (''VH'', \<lambda>q. Some (- 18))]] \<noteq> ([] :: raster list) \<and>
           (\<lambda>q. True) (0 :: int, 0 :: int) \<and>
           median (pixel_values [[(''VV'', \<lambda>q. Some (- 12)), (''VH'', \<lambda>q. Some (- 18))]]
                     ''VV'' (0, 0)) = Some (- 12) \<and>
           median (pixel_values [[(''VV'', \<lambda>q. Some (- 12)), (''VH'', \<lambda>q. Some (- 18))]]
                     ''VH'' (0, 0)) = Some (- 18)"
    by (simp add: c pixel_values_def List.map_filter_simps m)
  from s1_ratio_on_median [where bk = ?bk and region = "\<lambda>q. True" and sd = "''2019-07-01''"
      and ed = "''2019-07-31''" and p = "(0, 0)" and vv = "- 12" and vh = "- 18"
      and rs = "[[(''VV'', \<lambda>q. Some (- 12)), (''VH'', \<lambda>q. Some (- 18))]]", THEN conjunct1] h
  have "band_value (s1_month_image (s1_collection ?bk (\<lambda>q. True) ''2019-07-01'' ''2019-07-31'')
          (\<lambda>q. True)) ''VH_VV'' (0, 0) = Some (- 18 / - 12)"
    by blast
  then show ?thesis by simp
qed

section \<open>Properties of the run when the region cannot be loaded\<close>

text \<open>
  Claim C5. When the region geometry cannot be loaded (the file is missing or malformed),
  the run ends with that exception before any batch is processed: the radar builder logs
  the failure and returns without building anything, the optical builder raises, and the
  script ends there. No monthly image of either sensor is set, and no output file is
  written.
\<close>

theorem missing_region_is_fatal:
  "geometry_file bk = Inl e \<longrightarrow>
     create_monthwise_s1_collection bk year st
       = (None, logger ERROR ''Failed to load GeoJSON: %s'' st) \<and>
     create_monthwise_s2_collection bk year st = (Some e, st) \<and>
     (\<exists>st'. main bk rows output_dir = (Some e, st') \<and>
        s1_globals st' = Map.empty \<and> s2_globals st' = Map.empty \<and> files st' = Map.empty \<and>
        logs st' = [(INFO, ''Loaded %d coordinates from %s''),
                    (INFO, ''Creating Sentinel-1 and Sentinel-2 collections for 2019''),
                    (ERROR, ''Failed to load GeoJSON: %s'')])"
  by (simp add: main_def create_monthwise_s1_collection_def create_monthwise_s2_collection_def
      logger_def initial_state_def Let_def)

theorem missing_region_is_fatal_witness:
  "fst (main \<lparr>geometry_file = Inl FileNotFoundError, s1_catalog = [], s1_raises = (\<lambda>m. None),
          s2_sr_catalog = [], s2_cloud_catalog = [], s2_raises = (\<lambda>m. None),
          ddt = (\<lambda>b a d q. None), sample_regions = (\<lambda>r points. Inr []),
          to_csv_raises = (\<lambda>f. None)\<rparr> [(77.1, 13.3)] ''Output'') = Some FileNotFoundError \<and>
   files (snd (main \<lparr>geometry_file = Inl FileNotFoundError, s1_catalog = [], s1_raises = (\<lambda>m. None),
          s2_sr_catalog = [], s2_cloud_catalog = [], s2_raises = (\<lambda>m. None),
          ddt = (\<lambda>b a d q. None), sample_regions = (\<lambda>r points. Inr []),
          to_csv_raises = (\<lambda>f. None)\<rparr> [(77.1, 13.3)] ''Output'')) = Map.empty"
  using missing_region_is_fatal [where bk = "\<lparr>geometry_file = Inl FileNotFoundError,
          s1_catalog = [], s1_raises = (\<lambda>m. None),
          s2_sr_catalog = [], s2_cloud_catalog = [], s2_raises = (\<lambda>m. None),
          ddt = (\<lambda>b a d q. None), sample_regions = (\<lambda>r points. Inr []),
          to_csv_raises = (\<lambda>f. None)\<rparr>" and e = FileNotFoundError and rows = "[(77.1, 13.3)]"
          and output_dir = "''Output''" and year = 2019 and st = initial_state]
  by auto

section \<open>Properties of the exporters\<close>

















section \<open>A month whose optical build fails\<close>

text \<open>
  Claim C4 does not hold of the optical builder. With a backend whose client raises while
  the collection of September is built, \<open>create_monthwise_s2_collection\<close> leaves the
  month loop with that exception: July and August are set, September is unset, and
  October, November and December are never built; the exception ends the script before
  any batch, so no radar file is written either. The radar builder, whose loop body is
  inside a \<open>try\<close>, skips the failing month and builds the others.
\<close>

theorem s2_month_failure_aborts_the_build:
  "(let bk = \<lparr>geometry_file = Inr (\<lambda>q. True), s1_catalog = [],
        s1_raises = (\<lambda>m. None),
        s2_sr_catalog = [], s2_cloud_catalog = [],
        s2_raises = (\<lambda>m. if m = ''09'' then Some EEException else None),
        ddt = (\<lambda>b a d q. None), sample_regions = (\<lambda>r points. Inr []),
        to_csv_raises = (\<lambda>f. None)\<rparr>;
        built = create_monthwise_s2_collection bk 2019 initial_state;
        run = main bk [(77.1, 13.3)] ''Output''
    in fst built = Some EEException \<and>
       s2_globals (snd built) ''july_s2'' \<noteq> None \<and>
       s2_globals (snd built) ''august_s2'' \<noteq> None \<and>
       s2_globals (snd built) ''september_s2'' = None \<and>
       s2_globals (snd built) ''october_s2'' = None \<and>
       s2_globals (snd built) ''november_s2'' = None \<and>
       s2_globals (snd built) ''december_s2'' = None \<and>
       fst run = Some EEException \<and>
       files (snd run) = Map.empty) \<and>
   (let bk = \<lparr>geometry_file = Inr (\<lambda>q. True), s1_catalog = [],
        s1_raises = (\<lambda>m. if m = ''09'' then Some EEException else None),
        s2_sr_catalog = [], s2_cloud_catalog = [],
        s2_raises = (\<lambda>m. None),
        ddt = (\<lambda>b a d q. None), sample_regions = (\<lambda>r points. Inr []),
        to_csv_raises = (\<lambda>f. None)\<rparr>;
        built = create_monthwise_s1_collection bk 2019 initial_state
    in fst built = None \<and>
       s1_globals (snd built) ''august_s1'' \<noteq> None \<and>
       s1_globals (snd built) ''september_s1'' = None \<and>
       s1_globals (snd built) ''october_s1'' \<noteq> None \<and>
       s1_globals (snd built) ''november_s1'' \<noteq> None \<and>
       s1_globals (snd built) ''december_s1'' \<noteq> None)"
  by (simp add: Let_def main_def create_monthwise_s1_collection_def
      create_monthwise_s2_collection_def s1_month_names_def s2_month_names_def s1_month_def
      logger_def initial_state_def)

section \<open>Properties of the cloud and shadow mask\<close>

























end
